theory Spec2Isabelle
  imports Complex_Main "HOL-Library.Sublist" "HOL-Library.AList"
begin

section \<open>The lezer build and release script\<close>

text \<open>
  The repository's one program is a Node script, \<^verbatim>\<open>bin/lezer.js\<close>, that builds,
  watches and releases the packages of the Lezer project. The source holds two revisions
  of it: the earlier one with the commands \<^verbatim>\<open>build\<close> and \<^verbatim>\<open>watch\<close>, and a later one
  without them. Definitions follow the earlier revision; where the later revision has a
  different body for the same function, its definition carries the suffix \<open>_later\<close>.

  Strings are lists of characters; the model covers ASCII text. Paths are strings, and
  \<^verbatim>\<open>path.join\<close> is concatenation with a slash (the arguments the script passes are
  normalised segments).
\<close>

subsection \<open>Strings, numbers and errors of the runtime\<close>

type_synonym path = string

definition nl :: char where
  "nl = CHR 0x0A"

definition cr :: char where
  "cr = CHR 0x0D"

datatype js_error =
    Error string
  | ReferenceError string
  | TypeError string
  | SyntaxError string
  | SystemError string path
  | CommandFailed string "string list"

text \<open>\<^verbatim>\<open>String.prototype.split\<close> with a one-character separator.\<close>

fun split_on :: "char \<Rightarrow> string \<Rightarrow> string list" where
  "split_on c [] = [[]]"
| "split_on c (x # xs) =
     (if x = c then [] # split_on c xs
      else (case split_on c xs of
              [] \<Rightarrow> [[x]]
            | ys # yss \<Rightarrow> (x # ys) # yss))"

text \<open>Reading an array element that may be absent: \<open>None\<close> is \<^verbatim>\<open>undefined\<close>.\<close>

definition element :: "'a list \<Rightarrow> nat \<Rightarrow> 'a option" where
  "element xs i = (if i < length xs then Some (xs ! i) else None)"

definition digit_chars :: string where
  "digit_chars = ''0123456789''"

definition digit_value :: "char \<Rightarrow> nat" where
  "digit_value c = of_char c - 48"

definition digit_char :: "nat \<Rightarrow> char" where
  "digit_char d = digit_chars ! (d mod 10)"

text \<open>
  A JavaScript number as far as the script computes with version components: a natural
  number or \<^verbatim>\<open>NaN\<close>.
\<close>

datatype jsnum = Num nat | NaN

text \<open>
  \<^verbatim>\<open>Number(s)\<close> on a version component. \<^verbatim>\<open>undefined\<close> gives \<^verbatim>\<open>NaN\<close>, the empty string
  0, a string of decimal digits its value. Every other string is rendered as \<^verbatim>\<open>NaN\<close>:
  signs, fractions, exponents, radix prefixes and surrounding blanks, which \<^verbatim>\<open>Number\<close>
  also reads, and values beyond \<open>2\<^sup>5\<^sup>3\<close>, which it rounds, are outside this model.
\<close>

definition Number :: "string option \<Rightarrow> jsnum" where
  "Number v =
     (case v of
        None \<Rightarrow> NaN
      | Some s \<Rightarrow>
          if list_all (\<lambda>c. c \<in> set digit_chars) s
          then Num (foldl (\<lambda>n c. 10 * n + digit_value c) 0 s)
          else NaN)"

fun string_of_nat :: "nat \<Rightarrow> string" where
  "string_of_nat n =
     (if n < 10 then [digit_char n]
      else string_of_nat (n div 10) @ [digit_char (n mod 10)])"

declare string_of_nat.simps [simp del]

text \<open>\<open>n + 1\<close> on a number, and the conversions a template literal applies.\<close>

definition plus_one :: "jsnum \<Rightarrow> jsnum" where
  "plus_one x = (case x of Num n \<Rightarrow> Num (n + 1) | NaN \<Rightarrow> NaN)"

definition string_of_num :: "jsnum \<Rightarrow> string" where
  "string_of_num x = (case x of Num n \<Rightarrow> string_of_nat n | NaN \<Rightarrow> ''NaN'')"

definition string_of_value :: "string option \<Rightarrow> string" where
  "string_of_value v = (case v of None \<Rightarrow> ''undefined'' | Some s \<Rightarrow> s)"

subsection \<open>Release notes and version bumps\<close>

record changes =
  fix' :: "string list"
  feature :: "string list"
  breaking :: "string list"

definition no_changes :: changes where
  "no_changes = \<lparr>fix' = [], feature = [], breaking = []\<rparr>"

text \<open>
  \<^verbatim>\<open>bumpVersion(version, changes)\<close>. The three components are the first three pieces of
  the version split at the dots; \<^verbatim>\<open>major != "0"\<close> compares the piece itself, so an
  absent piece differs from \<^verbatim>\<open>"0"\<close>.
\<close>

definition bumpVersion :: "string \<Rightarrow> changes \<Rightarrow> js_error + string" where
  "bumpVersion version chs =
     (let parts = split_on (CHR ''.'') version;
          major = element parts 0;
          minor = element parts 1;
          patch = element parts 2
      in if breaking chs \<noteq> [] \<and> major \<noteq> Some ''0''
         then Inr (string_of_num (plus_one (Number major)) @ ''.0.0'')
         else if feature chs \<noteq> [] \<or> breaking chs \<noteq> []
         then Inr (string_of_value major @ ''.'' @ string_of_num (plus_one (Number minor)) @ ''.0'')
         else if fix' chs \<noteq> []
         then Inr (string_of_value major @ ''.'' @ string_of_value minor @ ''.'' @
                   string_of_num (plus_one (Number patch)))
         else Inl (Error ''No new release notes!''))"

text \<open>The later revision: below version 1 a feature is a patch-level change.\<close>

definition bumpVersion_later :: "string \<Rightarrow> changes \<Rightarrow> js_error + string" where
  "bumpVersion_later version chs =
     (let parts = split_on (CHR ''.'') version;
          major = element parts 0;
          minor = element parts 1;
          patch = element parts 2
      in if breaking chs \<noteq> [] \<and> major \<noteq> Some ''0''
         then Inr (string_of_num (plus_one (Number major)) @ ''.0.0'')
         else if feature chs \<noteq> [] \<and> major \<noteq> Some ''0'' \<or> breaking chs \<noteq> []
         then Inr (string_of_value major @ ''.'' @ string_of_num (plus_one (Number minor)) @ ''.0'')
         else if fix' chs \<noteq> [] \<or> feature chs \<noteq> []
         then Inr (string_of_value major @ ''.'' @ string_of_value minor @ ''.'' @
                   string_of_num (plus_one (Number patch)))
         else Inl (Error ''No new release notes!''))"

subsection \<open>Character classes and the import scanner\<close>

text \<open>
  The classes \<^verbatim>\<open>\s\<close>, \<^verbatim>\<open>\w\<close> and the line terminators that \<^verbatim>\<open>.\<close> excludes, on ASCII.
\<close>

definition space_chars :: string where
  "space_chars = [CHR '' '', CHR 0x09, CHR 0x0A, CHR 0x0B, CHR 0x0C, CHR 0x0D]"

definition is_space :: "char \<Rightarrow> bool" where
  "is_space c = (c \<in> set space_chars)"

definition word_chars :: string where
  "word_chars =
     ''abcdefghijklmnopqrstuvwxyz'' @ ''ABCDEFGHIJKLMNOPQRSTUVWXYZ'' @ ''0123456789'' @ ''_''"

definition is_word :: "char \<Rightarrow> bool" where
  "is_word c = (c \<in> set word_chars)"

definition is_line_end :: "char \<Rightarrow> bool" where
  "is_line_end c = (c = nl \<or> c = cr)"

text \<open>The class \<^verbatim>\<open>[\w-]\<close> of the characters of a package name.\<close>

definition is_name_char :: "char \<Rightarrow> bool" where
  "is_name_char c = (is_word c \<or> c = CHR ''-'')"

text \<open>
  The scanner of \<open>dependencies\<close> is the regular expression
  \<^verbatim>\<open>/(?:^|\n)\s*import.* from "\.\.\/\.\.\/([\w-]+)"/g\<close>, run with \<^verbatim>\<open>exec\<close> until it
  fails. Each function below matches one piece of it at the head of the text and
  returns the captured name with the text after the match.

  \<open>from_clause\<close> is \<^verbatim>\<open> from "../../([\w-]+)"\<close>: the name is the longest run of name
  characters, since a shorter one is followed by a name character and not by the quote.
\<close>

definition from_literal :: string where
  "from_literal = '' from '' @ [CHR 0x22] @ ''../../''"

definition from_clause :: "string \<Rightarrow> (string \<times> string) option" where
  "from_clause s =
     (if prefix from_literal s
      then (let r = drop (length from_literal) s;
                n = takeWhile is_name_char r;
                rest = dropWhile is_name_char r
            in if n \<noteq> [] \<and> rest \<noteq> [] \<and> hd rest = CHR 0x22
               then Some (n, tl rest) else None)
      else None)"

text \<open>
  \<^verbatim>\<open>.*\<close> followed by the clause: greedy, so the clause is tried after the longest run of
  characters of the line first and after shorter runs on failure.
\<close>

fun dot_star_from :: "string \<Rightarrow> (string \<times> string) option" where
  "dot_star_from [] = from_clause []"
| "dot_star_from (c # cs) =
     (if is_line_end c then from_clause (c # cs)
      else (case dot_star_from cs of
              Some r \<Rightarrow> Some r
            | None \<Rightarrow> from_clause (c # cs)))"

text \<open>
  \<^verbatim>\<open>\s*import\<close> and the rest: the blanks are all skipped, since \<^verbatim>\<open>import\<close> does not start
  with a blank.
\<close>

definition import_statement :: "string \<Rightarrow> (string \<times> string) option" where
  "import_statement s =
     (let r = dropWhile is_space s
      in if prefix ''import'' r then dot_star_from (drop 6 r) else None)"

text \<open>
  One attempt at one position. \<^verbatim>\<open>^\<close> holds at the start of the text only (the
  expression has no \<^verbatim>\<open>m\<close> flag) and is tried before the newline.
\<close>

definition import_at :: "bool \<Rightarrow> string \<Rightarrow> (string \<times> string) option" where
  "import_at at_start s =
     (case (if at_start then import_statement s else None) of
        Some r \<Rightarrow> Some r
      | None \<Rightarrow>
          (case s of
             [] \<Rightarrow> None
           | c # cs \<Rightarrow> if c = nl then import_statement cs else None))"

lemma from_clause_shorter:
  "from_clause s = Some (n, rest) \<Longrightarrow> length rest < length s"
proof -
  assume a: "from_clause s = Some (n, rest)"
  let ?r = "drop (length from_literal) s"
  from a have p: "prefix from_literal s"
    by (simp add: from_clause_def split: if_splits)
  from a p have ne: "dropWhile is_name_char ?r \<noteq> []"
    and rest: "rest = tl (dropWhile is_name_char ?r)"
    by (auto simp: from_clause_def Let_def split: if_splits)
  have "length rest < length (dropWhile is_name_char ?r)"
    using ne rest by (cases "dropWhile is_name_char ?r") auto
  also have "\<dots> \<le> length ?r"
    by (rule length_dropWhile_le)
  also have "\<dots> \<le> length s"
    by simp
  finally show ?thesis .
qed

lemma dot_star_from_shorter:
  "dot_star_from s = Some (n, rest) \<Longrightarrow> length rest < length s"
proof (induction s)
  case Nil
  then show ?case by (auto dest: from_clause_shorter)
next
  case (Cons c cs)
  then show ?case
    by (fastforce split: if_splits option.splits dest: from_clause_shorter)
qed

lemma import_statement_shorter:
  "import_statement s = Some (n, rest) \<Longrightarrow> length rest < length s"
proof -
  assume a: "import_statement s = Some (n, rest)"
  then have "dot_star_from (drop 6 (dropWhile is_space s)) = Some (n, rest)"
    by (simp add: import_statement_def Let_def split: if_splits)
  then have "length rest < length (drop 6 (dropWhile is_space s))"
    by (rule dot_star_from_shorter)
  also have "\<dots> \<le> length (dropWhile is_space s)"
    by simp
  also have "\<dots> \<le> length s"
    by (rule length_dropWhile_le)
  finally show ?thesis .
qed

lemma import_at_shorter:
  "import_at b s = Some (n, rest) \<Longrightarrow> length rest < length s"
  by (cases s)
     (auto simp: import_at_def split: if_splits option.splits
           dest!: import_statement_shorter)

text \<open>
  The \<^verbatim>\<open>while (m = imp.exec(text))\<close> loop: the captured names of the successive matches.
  After a match the search goes on behind it; a failed attempt moves one character on.
\<close>

function imports_from :: "bool \<Rightarrow> string \<Rightarrow> string list" where
  "imports_from at_start s =
     (case import_at at_start s of
        Some (n, rest) \<Rightarrow> n # imports_from False rest
      | None \<Rightarrow> (case s of [] \<Rightarrow> [] | c # cs \<Rightarrow> imports_from False cs))"
  by pat_completeness auto
termination
  by (relation "measure (\<lambda>(b, s). length s)") (auto dest: import_at_shorter)

declare imports_from.simps [simp del]

subsection \<open>Packages, the file system and the process state\<close>

fun path_join :: "string list \<Rightarrow> path" where
  "path_join [] = ''.''"
| "path_join [x] = x"
| "path_join (x # y # ys) = x @ ''/'' @ path_join (y # ys)"

text \<open>
  \<^verbatim>\<open>path.dirname\<close> and the last segment of a path, for paths without a trailing slash.
\<close>

definition dirname :: "path \<Rightarrow> path" where
  "dirname p =
     (if CHR ''/'' \<notin> set p then ''.''
      else (let d = path_join (butlast (split_on (CHR ''/'') p))
            in if d = [] then ''/'' else d))"

definition basename :: "path \<Rightarrow> string" where
  "basename p = last (split_on (CHR ''/'') p)"

text \<open>
  A package object has the fields the constructor sets; its two lazily filled fields,
  \<^verbatim>\<open>_dependencies\<close> and \<^verbatim>\<open>_rollup\<close>, live in the process state under the package's
  name (the registry has one object per name).
\<close>

record pkg_options =
  entry_option :: "string option"
  node :: bool
  grammar :: bool

record pkg =
  name :: string
  entry :: string
  dir :: path
  options :: pkg_options

definition no_options :: pkg_options where
  "no_options = \<lparr>entry_option = None, node = False, grammar = False\<rparr>"

definition Pkg :: "path \<Rightarrow> string \<Rightarrow> pkg_options \<Rightarrow> pkg" where
  "Pkg r n opts =
     \<lparr>name = n,
      entry = (case entry_option opts of
                 None \<Rightarrow> ''index''
               | Some e \<Rightarrow> if e = [] then ''index'' else e),
      dir = path_join [r, n],
      options = opts\<rparr>"

definition packages :: "path \<Rightarrow> pkg list" where
  "packages r =
     [Pkg r ''common'' no_options,
      Pkg r ''lr'' no_options,
      Pkg r ''generator'' (no_options\<lparr>node := True\<rparr>),
      Pkg r ''javascript'' (no_options\<lparr>grammar := True\<rparr>),
      Pkg r ''css'' (no_options\<lparr>grammar := True\<rparr>),
      Pkg r ''html'' (no_options\<lparr>grammar := True\<rparr>),
      Pkg r ''xml'' (no_options\<lparr>grammar := True\<rparr>),
      Pkg r ''cpp'' (no_options\<lparr>grammar := True\<rparr>),
      Pkg r ''java'' (no_options\<lparr>grammar := True\<rparr>),
      Pkg r ''python'' (no_options\<lparr>grammar := True\<rparr>),
      Pkg r ''json'' (no_options\<lparr>grammar := True\<rparr>),
      Pkg r ''rust'' (no_options\<lparr>grammar := True\<rparr>),
      Pkg r ''lezer'' (no_options\<lparr>grammar := True\<rparr>),
      Pkg r ''markdown'' no_options]"

text \<open>
  \<^verbatim>\<open>packageNames\<close> is an object without prototype, filled in registry order, so a lookup
  finds registered names only.
\<close>

definition packageNames :: "path \<Rightarrow> string \<rightharpoonup> pkg" where
  "packageNames r = foldl (\<lambda>m p. m(name p \<mapsto> p)) Map.empty (packages r)"

text \<open>
  The later revision builds its registry in \<^verbatim>\<open>loadPackages\<close>: it has three more packages,
  of which \<open>highlight\<close> names its entry.
\<close>

definition loadPackages :: "path \<Rightarrow> pkg list \<times> (string \<rightharpoonup> pkg)" where
  "loadPackages r =
     (let packages =
        [Pkg r ''common'' no_options,
         Pkg r ''highlight'' (no_options\<lparr>entry_option := Some ''highlight''\<rparr>),
         Pkg r ''lr'' no_options,
         Pkg r ''generator'' (no_options\<lparr>node := True\<rparr>),
         Pkg r ''javascript'' (no_options\<lparr>grammar := True\<rparr>),
         Pkg r ''css'' (no_options\<lparr>grammar := True\<rparr>),
         Pkg r ''sass'' (no_options\<lparr>grammar := True\<rparr>),
         Pkg r ''html'' (no_options\<lparr>grammar := True\<rparr>),
         Pkg r ''xml'' (no_options\<lparr>grammar := True\<rparr>),
         Pkg r ''cpp'' (no_options\<lparr>grammar := True\<rparr>),
         Pkg r ''java'' (no_options\<lparr>grammar := True\<rparr>),
         Pkg r ''python'' (no_options\<lparr>grammar := True\<rparr>),
         Pkg r ''json'' (no_options\<lparr>grammar := True\<rparr>),
         Pkg r ''rust'' (no_options\<lparr>grammar := True\<rparr>),
         Pkg r ''lezer'' (no_options\<lparr>grammar := True\<rparr>),
         Pkg r ''php'' (no_options\<lparr>grammar := True\<rparr>),
         Pkg r ''markdown'' no_options]
      in (packages, foldl (\<lambda>m p. m(name p \<mapsto> p)) Map.empty packages))"

definition packages_later :: "path \<Rightarrow> pkg list" where
  "packages_later r = fst (loadPackages r)"

definition packageNames_later :: "path \<Rightarrow> string \<rightharpoonup> pkg" where
  "packageNames_later r = snd (loadPackages r)"

text \<open>The configuration handed to the bundler.\<close>

record output_options =
  format :: string
  file' :: path
  sourcemap :: "bool option"
  externalLiveBindings :: bool

record compiler_options =
  noImplicitReturns :: bool
  noUnusedLocals :: bool
  sourceMap :: "bool option"
  lib :: "string list option"
  target :: "string option"
  declaration' :: "bool option"

record ts_plugin =
  clean :: bool
  tsconfig :: path
  references :: "string list"
  compilerOptions :: compiler_options
  include' :: "string list"

record rollup_config =
  input' :: path
  output' :: "output_options list"
  plugins :: "ts_plugin list"

text \<open>
  The \<^verbatim>\<open>external\<close> function of every configuration: an import is external unless it is
  \<^verbatim>\<open>tslib\<close> or starts with a slash or with a dot and a slash.
\<close>

definition external :: "string \<Rightarrow> bool" where
  "external ident = (ident \<noteq> ''tslib'' \<and> \<not> (prefix ''/'' ident \<or> prefix ''./'' ident))"

text \<open>One file of a bundle, as \<^verbatim>\<open>bundle.generate\<close> returns it.\<close>

record artifact =
  fileName :: string
  code :: "string option"
  source :: "string option"
  map' :: "string option"

text \<open>
  The result of \<^verbatim>\<open>rollup.rollup(config)\<close>: what \<^verbatim>\<open>generate\<close> gives for each output, and
  the time the bundling took.
\<close>

record rollup_bundle =
  duration :: rat
  generate :: "output_options \<Rightarrow> js_error + artifact list"

text \<open>
  The file system holds regular files, each with content and modification time in
  milliseconds, and the directories that exist; a directory's listing is the files
  directly in it, in the order of the store. The only failure of a read is a missing
  file or directory (\<^verbatim>\<open>ENOENT\<close>); writes succeed, stamp the file with the current
  time and are recorded in \<open>writes\<close>.
\<close>

record fs_file =
  content :: string
  mtime :: rat

datatype line =
    Log string
  | Log_done rat
  | Log_error js_error
  | Err string
  | Err_error js_error

record world =
  root :: path
  files :: "(path \<times> fs_file) list"
  dirs :: "path list"
  now :: rat
  today :: "nat \<times> nat \<times> nat"
  console :: "line list"
  writes :: "(path \<times> string) list"
  bundled :: "rollup_config list"
  commands :: "(string \<times> string list \<times> path) list"
  watches :: "(path \<times> pkg) list"
  dependencies_cache :: "string \<rightharpoonup> pkg list"
  rollup_cache :: "string \<rightharpoonup> rollup_config"

definition statSync :: "world \<Rightarrow> path \<Rightarrow> js_error + fs_file" where
  "statSync w p =
     (case map_of (files w) p of
        None \<Rightarrow> Inl (SystemError ''ENOENT'' p)
      | Some f \<Rightarrow> Inr f)"

definition readFileSync :: "world \<Rightarrow> path \<Rightarrow> js_error + string" where
  "readFileSync w p =
     (case map_of (files w) p of
        None \<Rightarrow> Inl (SystemError ''ENOENT'' p)
      | Some f \<Rightarrow> Inr (content f))"

definition existsSync :: "world \<Rightarrow> path \<Rightarrow> bool" where
  "existsSync w p = (p \<in> set (dirs w) \<or> map_of (files w) p \<noteq> None)"

definition readdirSync :: "world \<Rightarrow> path \<Rightarrow> js_error + string list" where
  "readdirSync w d =
     (if d \<in> set (dirs w)
      then Inr (map basename (filter (\<lambda>p. dirname p = d) (map fst (files w))))
      else Inl (SystemError ''ENOENT'' d))"

definition writeFile :: "path \<Rightarrow> string \<Rightarrow> world \<Rightarrow> world" where
  "writeFile p data w =
     w\<lparr>files := AList.update p \<lparr>content = data, mtime = now w\<rparr> (files w),
       writes := writes w @ [(p, data)]\<rparr>"

definition mkdir :: "path \<Rightarrow> world \<Rightarrow> world" where
  "mkdir d w = w\<lparr>dirs := List.insert d (dirs w)\<rparr>"

subsection \<open>The getters of a package\<close>

definition sources :: "pkg \<Rightarrow> world \<Rightarrow> js_error + path list" where
  "sources p w =
     (let src = path_join [dir p, ''src'']
      in case readdirSync w src of
           Inl e \<Rightarrow> Inl e
         | Inr names \<Rightarrow>
             Inr (List.map (\<lambda>f. path_join [src, f]) (filter (suffix ''.ts'') names)))"

definition declarations :: "pkg \<Rightarrow> world \<Rightarrow> js_error + path list" where
  "declarations p w =
     (let dist = path_join [dir p, ''dist'']
      in if \<not> existsSync w dist then Inr []
         else (case readdirSync w dist of
                 Inl e \<Rightarrow> Inl e
               | Inr names \<Rightarrow>
                   Inr (List.map (\<lambda>f. path_join [dist, f]) (filter (suffix ''.d.ts'') names))))"

definition entrySource :: "pkg \<Rightarrow> path" where
  "entrySource p = path_join [dir p, ''src'', entry p @ ''.ts'']"

definition esmFile :: "pkg \<Rightarrow> path" where
  "esmFile p = path_join [dir p, ''dist'', ''index.es.js'']"

definition cjsFile :: "pkg \<Rightarrow> path" where
  "cjsFile p = path_join [dir p, ''dist'', ''index.js'']"

text \<open>
  The values an array of the script holds. \<^verbatim>\<open>Array.prototype.includes\<close> compares with
  SameValueZero: strings by content, objects by identity, and a string is never the same
  value as an object.
\<close>

datatype jsval = JString string | JPkg pkg

definition Array_includes :: "jsval list \<Rightarrow> jsval \<Rightarrow> bool" where
  "Array_includes xs v = (v \<in> set xs)"

text \<open>
  The loop over the matches in one source text: \<^verbatim>\<open>_dependencies\<close> holds package objects,
  \<^verbatim>\<open>includes\<close> is asked for the captured name, and the registered package of that name is
  pushed.
\<close>

fun push_imports :: "path \<Rightarrow> string list \<Rightarrow> pkg list \<Rightarrow> pkg list" where
  "push_imports r [] deps = deps"
| "push_imports r (m # ms) deps =
     (if \<not> Array_includes (List.map JPkg deps) (JString m) \<and> packageNames r m \<noteq> None
      then push_imports r ms (deps @ [the (packageNames r m)])
      else push_imports r ms deps)"

text \<open>
  The loop over the source files. A file that cannot be read raises, and the array
  filled so far stays in the cache.
\<close>

fun scan_sources :: "world \<Rightarrow> path list \<Rightarrow> pkg list \<Rightarrow> (js_error option \<times> pkg list)" where
  "scan_sources w [] deps = (None, deps)"
| "scan_sources w (f # fs) deps =
     (case readFileSync w f of
        Inl e \<Rightarrow> (Some e, deps)
      | Inr text \<Rightarrow> scan_sources w fs (push_imports (root w) (imports_from True text) deps))"

definition dependencies :: "pkg \<Rightarrow> world \<Rightarrow> (js_error + pkg list) \<times> world" where
  "dependencies p w =
     (case dependencies_cache w (name p) of
        Some deps \<Rightarrow> (Inr deps, w)
      | None \<Rightarrow>
          (case sources p w of
             Inl e \<Rightarrow> (Inl e, w\<lparr>dependencies_cache := (dependencies_cache w)(name p \<mapsto> [])\<rparr>)
           | Inr srcs \<Rightarrow>
               (case scan_sources w srcs [] of
                  (Some e, deps) \<Rightarrow>
                    (Inl e, w\<lparr>dependencies_cache := (dependencies_cache w)(name p \<mapsto> deps)\<rparr>)
                | (None, deps) \<Rightarrow>
                    (Inr deps, w\<lparr>dependencies_cache := (dependencies_cache w)(name p \<mapsto> deps)\<rparr>))))"

text \<open>
  \<^verbatim>\<open>inputFiles\<close>: the sources, then the declarations of each dependency in turn.
\<close>

fun concat_declarations :: "world \<Rightarrow> pkg list \<Rightarrow> path list \<Rightarrow> js_error + path list" where
  "concat_declarations w [] arr = Inr arr"
| "concat_declarations w (d # ds) arr =
     (case declarations d w of
        Inl e \<Rightarrow> Inl e
      | Inr ps \<Rightarrow> concat_declarations w ds (arr @ ps))"

definition inputFiles :: "pkg \<Rightarrow> world \<Rightarrow> (js_error + path list) \<times> world" where
  "inputFiles p w =
     (case sources p w of
        Inl e \<Rightarrow> (Inl e, w)
      | Inr srcs \<Rightarrow>
          (case dependencies p w of
             (Inl e, w1) \<Rightarrow> (Inl e, w1)
           | (Inr deps, w1) \<Rightarrow>
               (case concat_declarations w1 deps [] of
                  Inl e \<Rightarrow> (Inl e, w1)
                | Inr decls \<Rightarrow> (Inr (srcs @ decls), w1))))"

subsection \<open>The bundler configuration of a package\<close>

record build_options =
  esm :: bool
  always :: bool

definition baseCompilerOptions :: compiler_options where
  "baseCompilerOptions =
     \<lparr>noImplicitReturns = False, noUnusedLocals = False, sourceMap = Some True,
      lib = None, target = None, declaration' = None\<rparr>"

definition tsPlugin :: "path \<Rightarrow> string list \<Rightarrow> ts_plugin" where
  "tsPlugin r libs =
     \<lparr>clean = True,
      tsconfig = path_join [r, ''lezer/tsconfig.json''],
      references = [],
      compilerOptions = baseCompilerOptions\<lparr>lib := Some libs\<rparr>,
      include' = []\<rparr>"

text \<open>
  \<^verbatim>\<open>rollupConfig(options)\<close> is \<^verbatim>\<open>this._rollup || (this._rollup = {...})\<close>: the stored
  configuration when there is one (an object is never falsy), else a new one, which is
  stored.
\<close>

definition esm_output :: "pkg \<Rightarrow> output_options" where
  "esm_output p =
     \<lparr>format = ''esm'', file' = esmFile p, sourcemap = Some True,
      externalLiveBindings = False\<rparr>"

definition cjs_output :: "pkg \<Rightarrow> output_options" where
  "cjs_output p =
     \<lparr>format = ''cjs'', file' = cjsFile p, sourcemap = Some True,
      externalLiveBindings = False\<rparr>"

definition new_config :: "path \<Rightarrow> pkg \<Rightarrow> build_options \<Rightarrow> rollup_config" where
  "new_config r p opts =
     \<lparr>input' = entrySource p,
      output' = (if esm opts then [esm_output p] else []) @ [cjs_output p],
      plugins =
        [tsPlugin r (if node (options p) then [''es6'', ''node''] else [''es6'', ''scripthost''])]\<rparr>"

definition rollupConfig :: "pkg \<Rightarrow> build_options \<Rightarrow> world \<Rightarrow> rollup_config \<times> world" where
  "rollupConfig p opts w =
     (case rollup_cache w (name p) of
        Some c \<Rightarrow> (c, w)
      | None \<Rightarrow>
          (let c = new_config (root w) p opts
           in (c, w\<lparr>rollup_cache := (rollup_cache w)(name p \<mapsto> c)\<rparr>)))"

text \<open>
  The later revision: the alternate output has the format \<^verbatim>\<open>es\<close>, no output asks for a
  source map, and the plugin reads the package's own \<^verbatim>\<open>tsconfig.json\<close>.
\<close>

definition baseCompilerOptions_later :: compiler_options where
  "baseCompilerOptions_later =
     \<lparr>noImplicitReturns = False, noUnusedLocals = False, sourceMap = None,
      lib = None, target = None, declaration' = None\<rparr>"

definition tsPlugin_later :: "path \<Rightarrow> ts_plugin" where
  "tsPlugin_later cwd =
     \<lparr>clean = True,
      tsconfig = path_join [cwd, ''tsconfig.json''],
      references = [],
      compilerOptions =
        baseCompilerOptions_later
          \<lparr>lib := Some [''es6'', ''scripthost''], target := Some ''es6'',
           declaration' := Some True\<rparr>,
      include' = []\<rparr>"

definition new_config_later :: "pkg \<Rightarrow> build_options \<Rightarrow> rollup_config" where
  "new_config_later p opts =
     \<lparr>input' = entrySource p,
      output' =
        (if esm opts
         then [\<lparr>format = ''es'', file' = esmFile p, sourcemap = None,
                externalLiveBindings = False\<rparr>]
         else []) @
        [\<lparr>format = ''cjs'', file' = cjsFile p, sourcemap = None,
          externalLiveBindings = False\<rparr>],
      plugins = [tsPlugin_later (dir p)]\<rparr>"

definition rollupConfig_later ::
  "pkg \<Rightarrow> build_options \<Rightarrow> world \<Rightarrow> rollup_config \<times> world" where
  "rollupConfig_later p opts w =
     (case rollup_cache w (name p) of
        Some c \<Rightarrow> (c, w)
      | None \<Rightarrow>
          (let c = new_config_later p opts
           in (c, w\<lparr>rollup_cache := (rollup_cache w)(name p \<mapsto> c)\<rparr>)))"

subsection \<open>Writing the artifacts of a bundle\<close>

text \<open>
  How a procedure ends: it returns (an \<^verbatim>\<open>async\<close> function's promise is fulfilled), it
  throws (the promise is rejected), or it ends the process with an exit status.
\<close>

datatype outcome = Completed | Threw js_error | Exited nat

definition error_code :: "js_error \<Rightarrow> string option" where
  "error_code e = (case e of SystemError c p \<Rightarrow> Some c | _ \<Rightarrow> None)"

text \<open>
  \<^verbatim>\<open>maybeWriteFile(path, content)\<close>. The size of a file is the length of its content; a
  missing file leaves the size at \<open>-1\<close>, which no content has, so the file is read only
  when it exists.
\<close>

definition maybeWriteFile :: "path \<Rightarrow> string \<Rightarrow> world \<Rightarrow> outcome \<times> world" where
  "maybeWriteFile p data w =
     (case (case statSync w p of
              Inr f \<Rightarrow> Inr (int (length (content f)))
            | Inl e \<Rightarrow> if error_code e \<noteq> Some ''ENOENT'' then Inl e else Inr (- 1)) of
        Inl e \<Rightarrow> (Threw e, w)
      | Inr sz \<Rightarrow>
          if sz \<noteq> int (length data) then (Completed, writeFile p data w)
          else (case readFileSync w p of
                  Inl e \<Rightarrow> (Threw e, w)
                | Inr old \<Rightarrow>
                    if old \<noteq> data then (Completed, writeFile p data w)
                    else (Completed, w)))"

text \<open>\<^verbatim>\<open>String.prototype.replace\<close> with a literal pattern: the first occurrence only.\<close>

fun replace_first :: "string \<Rightarrow> string \<Rightarrow> string \<Rightarrow> string" where
  "replace_first pat rep [] = (if pat = [] then rep else [])"
| "replace_first pat rep (c # cs) =
     (if prefix pat (c # cs) then rep @ drop (length pat) (c # cs)
      else c # replace_first pat rep cs)"

definition quote :: char where
  "quote = CHR 0x22"

definition empty_sourceRoot :: string where
  "empty_sourceRoot = [quote] @ ''sourceRoot'' @ [quote] @ '':'' @ [quote, quote]"

definition parent_sourceRoot :: string where
  "parent_sourceRoot = [quote] @ ''sourceRoot'' @ [quote] @ '':'' @ [quote] @ ''../..'' @ [quote]"

text \<open>\<^verbatim>\<open>file.code || file.source\<close>: an empty or absent code gives way to the source.\<close>

definition artifact_code :: "artifact \<Rightarrow> string option" where
  "artifact_code f =
     (case code f of
        None \<Rightarrow> source f
      | Some c \<Rightarrow> if c = [] then source f else Some c)"

text \<open>Writing a value that is not a string or a buffer is a type error.\<close>

definition write_value :: "path \<Rightarrow> string option \<Rightarrow> world \<Rightarrow> outcome \<times> world" where
  "write_value p v w =
     (case v of
        None \<Rightarrow> (Threw (TypeError ''The data argument must be of type string or Buffer''), w)
      | Some data \<Rightarrow> (Completed, writeFile p data w))"

text \<open>
  The test \<^verbatim>\<open>/\.d\.ts/\<close> on a file name, which declaration files and their maps pass,
  and the text written for such a file: a declaration map gets its first empty
  \<^verbatim>\<open>sourceRoot\<close> replaced.
\<close>

definition is_declaration :: "string \<Rightarrow> bool" where
  "is_declaration n = sublist ''.d.ts'' n"

definition declaration_text :: "string \<Rightarrow> string \<Rightarrow> string" where
  "declaration_text n text =
     (if sublist ''.d.ts.map'' n then replace_first empty_sourceRoot parent_sourceRoot text
      else text)"

text \<open>
  The body of the inner loop of \<open>runRollup\<close> for one artifact of one output: the file
  itself, then its source map when it has one.
\<close>

definition write_artifact ::
  "output_options \<Rightarrow> path \<Rightarrow> artifact \<Rightarrow> world \<Rightarrow> outcome \<times> world" where
  "write_artifact out d f w =
     (let c = artifact_code f;
          first =
            (if \<not> is_declaration (fileName f)
             then write_value (path_join [d, fileName f]) c w
             else if format out = ''cjs''
             then (case c of
                     None \<Rightarrow> (Threw (TypeError ''Cannot read properties of undefined''), w)
                   | Some text \<Rightarrow>
                       maybeWriteFile (path_join [d, fileName f])
                         (declaration_text (fileName f) text) w)
             else (Completed, w))
      in case first of
           (Completed, w1) \<Rightarrow>
             (case map' f of
                None \<Rightarrow> (Completed, w1)
              | Some m \<Rightarrow>
                  (Completed, writeFile (path_join [d, fileName f @ ''.map'']) m w1))
         | r \<Rightarrow> r)"

fun write_artifacts ::
  "output_options \<Rightarrow> path \<Rightarrow> artifact list \<Rightarrow> world \<Rightarrow> outcome \<times> world" where
  "write_artifacts out d [] w = (Completed, w)"
| "write_artifacts out d (f # fs) w =
     (case write_artifact out d f w of
        (Completed, w1) \<Rightarrow> write_artifacts out d fs w1
      | r \<Rightarrow> r)"

text \<open>The outer loop: generate each output and write its artifacts beside the output file.\<close>

fun write_outputs ::
  "rollup_bundle \<Rightarrow> output_options list \<Rightarrow> world \<Rightarrow> outcome \<times> world" where
  "write_outputs b [] w = (Completed, w)"
| "write_outputs b (out # outs) w =
     (case generate b out of
        Inl e \<Rightarrow> (Threw e, w)
      | Inr result \<Rightarrow>
          (let d = dirname (file' out)
           in case write_artifacts out d result (mkdir d w) of
                (Completed, w1) \<Rightarrow> write_outputs b outs w1
              | r \<Rightarrow> r))"

text \<open>
  The bundler is the external tool: from a configuration and the state it reads, a
  bundle or an error. Every call is recorded in \<open>bundled\<close>.
\<close>

type_synonym bundler = "rollup_config \<Rightarrow> world \<Rightarrow> js_error + rollup_bundle"

definition runRollup :: "bundler \<Rightarrow> rollup_config \<Rightarrow> world \<Rightarrow> outcome \<times> world" where
  "runRollup rollup config w =
     (let w1 = w\<lparr>bundled := bundled w @ [config]\<rparr>
      in case rollup config w1 of
           Inl e \<Rightarrow> (Threw e, w1)
         | Inr b \<Rightarrow> write_outputs b (output' config) (w1\<lparr>now := now w1 + duration b\<rparr>))"

subsection \<open>The build driver\<close>

text \<open>\<^verbatim>\<open>fileTime(path)\<close>: the modification time, or \<open>-1\<close> for a file that does not exist.\<close>

definition fileTime :: "world \<Rightarrow> path \<Rightarrow> js_error + rat" where
  "fileTime w p =
     (case statSync w p of
        Inr f \<Rightarrow> Inr (mtime f)
      | Inl e \<Rightarrow> if error_code e = Some ''ENOENT'' then Inr (- 1) else Inl e)"

text \<open>
  \<^verbatim>\<open>Math.min(a, b)\<close> where \<open>b\<close> is a number or \<^verbatim>\<open>Infinity\<close>, the latter written \<open>None\<close>.
\<close>

definition Math_min :: "rat \<Rightarrow> rat option \<Rightarrow> rat" where
  "Math_min a b = (case b of None \<Rightarrow> a | Some x \<Rightarrow> min a x)"

text \<open>\<^verbatim>\<open>files.some(file => fileTime(file) >= time)\<close>, stopping at the first such file.\<close>

fun some_as_new :: "world \<Rightarrow> rat \<Rightarrow> path list \<Rightarrow> js_error + bool" where
  "some_as_new w t [] = Inr False"
| "some_as_new w t (f # fs) =
     (case fileTime w f of
        Inl e \<Rightarrow> Inl e
      | Inr ft \<Rightarrow> if ft \<ge> t then Inr True else some_as_new w t fs)"

text \<open>The part of \<open>rebuild\<close> after the staleness check: the two log lines around the bundling.\<close>

definition run_build :: "bundler \<Rightarrow> pkg \<Rightarrow> build_options \<Rightarrow> world \<Rightarrow> outcome \<times> world" where
  "run_build rollup p opts w =
     (let w1 = w\<lparr>console := console w @ [Log (''Building '' @ name p @ ''...'')]\<rparr>;
          t0 = now w1
      in case rollupConfig p opts w1 of
           (config, w2) \<Rightarrow>
             (case runRollup rollup config w2 of
                (Completed, w3) \<Rightarrow>
                  (Completed, w3\<lparr>console := console w3 @ [Log_done (now w3 - t0)]\<rparr>)
              | r \<Rightarrow> r))"

definition rebuild :: "bundler \<Rightarrow> pkg \<Rightarrow> build_options \<Rightarrow> world \<Rightarrow> outcome \<times> world" where
  "rebuild rollup p opts w =
     (if \<not> always opts
      then (case fileTime w (cjsFile p) of
              Inl e \<Rightarrow> (Threw e, w)
            | Inr tc \<Rightarrow>
                (case (if esm opts
                       then (case fileTime w (esmFile p) of
                               Inl e \<Rightarrow> Inl e
                             | Inr te \<Rightarrow> Inr (Some te))
                       else Inr None) of
                   Inl e \<Rightarrow> (Threw e, w)
                 | Inr te \<Rightarrow>
                     (let time = Math_min tc te
                      in if time \<ge> 0
                         then (case inputFiles p w of
                                 (Inl e, w1) \<Rightarrow> (Threw e, w1)
                               | (Inr ins, w1) \<Rightarrow>
                                   (case some_as_new w1 time ins of
                                      Inl e \<Rightarrow> (Threw e, w1)
                                    | Inr newer \<Rightarrow>
                                        if \<not> newer then (Completed, w1)
                                        else run_build rollup p opts w1))
                         else run_build rollup p opts w)))
      else run_build rollup p opts w)"

subsection \<open>Child processes\<close>

text \<open>
  \<^verbatim>\<open>run(cmd, args, wd)\<close> runs a program and returns what it prints, or throws when the
  program fails. The programs are external: \<open>exec\<close> gives the output, or \<open>None\<close> for a
  failure. Every call is recorded in \<open>commands\<close>.
\<close>

type_synonym shell = "string \<Rightarrow> string list \<Rightarrow> path \<Rightarrow> world \<Rightarrow> string option"

definition run :: "shell \<Rightarrow> string \<Rightarrow> string list \<Rightarrow> path \<Rightarrow> world \<Rightarrow> (js_error + string) \<times> world" where
  "run exec cmd args wd w =
     (let w1 = w\<lparr>commands := commands w @ [(cmd, args, wd)]\<rparr>
      in case exec cmd args wd w of
           None \<Rightarrow> (Inl (CommandFailed cmd args), w1)
         | Some out \<Rightarrow> (Inr out, w1))"

subsection \<open>The change log\<close>

text \<open>
  The scanner of \<open>changelog\<close> is
  \<^verbatim>\<open>/\n\r?\n(BREAKING|FIX|FEATURE):\s*([^]*?)(?=\r?\n\r?\n|\r?\n?$)/g\<close>.
  \<open>opt_cr\<close> is \<^verbatim>\<open>\r?\<close> before a newline; \<open>note_end\<close> is the lookahead: a blank line
  follows, or the text ends after at most one line break. The message is the shortest
  text after the blanks that the lookahead follows, and the end of the text always
  satisfies it, so the blanks are never given back.
\<close>

definition opt_cr :: "string \<Rightarrow> string" where
  "opt_cr s = (case s of [] \<Rightarrow> [] | c # cs \<Rightarrow> if c = cr then cs else s)"

definition note_keyword :: "string \<Rightarrow> (string \<times> string) option" where
  "note_keyword s =
     (if prefix ''BREAKING:'' s then Some (''breaking'', drop 9 s)
      else if prefix ''FIX:'' s then Some (''fix'', drop 4 s)
      else if prefix ''FEATURE:'' s then Some (''feature'', drop 8 s)
      else None)"

definition note_end :: "string \<Rightarrow> bool" where
  "note_end r =
     ((case opt_cr r of
         [] \<Rightarrow> False
       | c # r1 \<Rightarrow>
           c = nl \<and> (case opt_cr r1 of [] \<Rightarrow> False | c' # r2 \<Rightarrow> c' = nl)) \<or>
      r = [] \<or> r = [cr] \<or> r = [nl] \<or> r = [cr, nl])"

fun note_text :: "string \<Rightarrow> string \<times> string" where
  "note_text [] = ([], [])"
| "note_text (c # cs) =
     (if note_end (c # cs) then ([], c # cs)
      else (case note_text cs of (m, r) \<Rightarrow> (c # m, r)))"

definition note_at :: "string \<Rightarrow> (string \<times> string \<times> string) option" where
  "note_at s =
     (case s of
        [] \<Rightarrow> None
      | c # s1 \<Rightarrow>
          if c \<noteq> nl then None
          else (case opt_cr s1 of
                  [] \<Rightarrow> None
                | c2 # s3 \<Rightarrow>
                    if c2 \<noteq> nl then None
                    else (case note_keyword s3 of
                            None \<Rightarrow> None
                          | Some (kind, s4) \<Rightarrow>
                              (case note_text (dropWhile is_space s4) of
                                 (m, r) \<Rightarrow> Some (kind, m, r)))))"

lemma note_text_shorter: "length (snd (note_text s)) \<le> length s"
  by (induction s) (auto split: prod.splits)

lemma opt_cr_shorter: "length (opt_cr s) \<le> length s"
  by (simp add: opt_cr_def split: list.splits)

lemma note_keyword_shorter: "note_keyword s = Some (k, r) \<Longrightarrow> length r \<le> length s"
  by (auto simp: note_keyword_def split: if_splits)

lemma note_at_shorter:
  assumes "note_at s = Some (k, m, r)"
  shows "length r < length s"
proof -
  from assms obtain s1 where s: "s = nl # s1"
    by (cases s) (auto simp: note_at_def split: if_splits)
  with assms obtain s3 where o: "opt_cr s1 = nl # s3"
    by (cases "opt_cr s1") (auto simp: note_at_def split: if_splits)
  with assms s obtain kind s4 where kw: "note_keyword s3 = Some (kind, s4)"
    by (cases "note_keyword s3") (auto simp: note_at_def)
  with assms s o have r: "r = snd (note_text (dropWhile is_space s4))"
    by (auto simp: note_at_def split: prod.splits)
  have "length r \<le> length (dropWhile is_space s4)"
    unfolding r by (rule note_text_shorter)
  also have "\<dots> \<le> length s4" by (rule length_dropWhile_le)
  also have "\<dots> \<le> length s3" using kw by (rule note_keyword_shorter)
  also have "\<dots> < length (opt_cr s1)" using o by simp
  also have "\<dots> \<le> length s1" by (rule opt_cr_shorter)
  also have "\<dots> < length s" using s by simp
  finally show ?thesis .
qed

text \<open>The \<^verbatim>\<open>while (match = re.exec(commits))\<close> loop: kind and message of each match.\<close>

function notes_from :: "string \<Rightarrow> (string \<times> string) list" where
  "notes_from s =
     (case note_at s of
        Some (kind, m, rest) \<Rightarrow> (kind, m) # notes_from rest
      | None \<Rightarrow> (case s of [] \<Rightarrow> [] | c # cs \<Rightarrow> notes_from cs))"
  by pat_completeness auto
termination
  by (relation "measure length") (auto dest: note_at_shorter)

declare notes_from.simps [simp del]

text \<open>\<^verbatim>\<open>message.replace(/\r?\n/g, " ")\<close>.\<close>

fun unwrap_lines :: "string \<Rightarrow> string" where
  "unwrap_lines [] = []"
| "unwrap_lines [c] = (if c = nl then '' '' else [c])"
| "unwrap_lines (c # d # cs) =
     (if c = cr \<and> d = nl then CHR '' '' # unwrap_lines cs
      else if c = nl then CHR '' '' # unwrap_lines (d # cs)
      else c # unwrap_lines (d # cs))"

definition push_note :: "changes \<Rightarrow> string \<times> string \<Rightarrow> changes" where
  "push_note chs n =
     (case n of (kind, m) \<Rightarrow>
        if kind = ''fix'' then chs\<lparr>fix' := fix' chs @ [unwrap_lines m]\<rparr>
        else if kind = ''feature'' then chs\<lparr>feature := feature chs @ [unwrap_lines m]\<rparr>
        else chs\<lparr>breaking := breaking chs @ [unwrap_lines m]\<rparr>)"

text \<open>
  \<^verbatim>\<open>changelog(pkg, since, extra)\<close>. \<open>since\<close> may be \<^verbatim>\<open>undefined\<close>, which the string
  concatenation spells out; \<open>extra\<close> counts when it is a string that is not empty.
\<close>

definition changelog ::
  "shell \<Rightarrow> pkg \<Rightarrow> string option \<Rightarrow> string option \<Rightarrow> world \<Rightarrow> (js_error + changes) \<times> world" where
  "changelog exec p since extra w =
     (case run exec ''git''
             [''log'', ''--format=%B'', ''--reverse'', string_of_value since @ ''..main'']
             (dir p) w of
        (Inl e, w1) \<Rightarrow> (Inl e, w1)
      | (Inr commits, w1) \<Rightarrow>
          (let text = (case extra of
                         None \<Rightarrow> commits
                       | Some x \<Rightarrow>
                           if x = [] then commits
                           else [nl, nl] @ x @ [nl, nl] @ commits)
           in (Inr (foldl push_note no_changes (notes_from text)), w1)))"

subsection \<open>Release notes, the manifest and the release\<close>

text \<open>\<^verbatim>\<open>String.prototype.replace\<close> with a global literal pattern that is not empty.\<close>

fun replace_all :: "string \<Rightarrow> string \<Rightarrow> string \<Rightarrow> string" where
  "replace_all pat rep [] = []"
| "replace_all pat rep (c # cs) =
     (if pat \<noteq> [] \<and> prefix pat (c # cs)
      then rep @ replace_all pat rep (drop (length pat) (c # cs))
      else c # replace_all pat rep cs)"

definition pad :: "nat \<Rightarrow> string" where
  "pad n = (if n < 10 then ''0'' @ string_of_nat n else string_of_nat n)"

definition refTarget :: string where
  "refTarget = ''https://lezer.codemirror.net/docs/ref/''"

definition type_titles :: "(string \<times> (changes \<Rightarrow> string list)) list" where
  "type_titles =
     [(''Breaking changes'', breaking), (''Bug fixes'', fix'), (''New features'', feature)]"

definition notes_section :: "string \<Rightarrow> string list \<Rightarrow> string" where
  "notes_section title messages =
     (if messages \<noteq> [] then ''### '' @ title @ [nl, nl] else []) @
     concat (List.map (\<lambda>m. replace_all ''](##'' ('']('' @ refTarget @ ''#'') m @ [nl, nl]) messages)"

text \<open>
  \<^verbatim>\<open>releaseNotes(changes, version)\<close>: head and body. The date is that of the process state:
  year, month counted from 0, and day.
\<close>

definition releaseNotes :: "changes \<Rightarrow> string \<Rightarrow> world \<Rightarrow> string \<times> string" where
  "releaseNotes chs version w =
     (case today w of (year, month, day) \<Rightarrow>
        (''## '' @ version @ '' ('' @ string_of_nat year @ ''-'' @ pad (month + 1) @ ''-'' @
           pad day @ '')'' @ [nl, nl],
         concat (List.map (\<lambda>(title, field). notes_section title (field chs)) type_titles)))"

text \<open>
  The pattern \<^verbatim>\<open>/"version":\s*".*?"/\<close> at the head of a text: the key, blanks, and a
  quoted value that ends at the first quote of the line. The result is the text after
  the match.
\<close>

definition version_key :: string where
  "version_key = [quote] @ ''version'' @ [quote] @ '':''"

definition version_at :: "string \<Rightarrow> string option" where
  "version_at s =
     (if prefix version_key s
      then (case dropWhile is_space (drop (length version_key) s) of
              [] \<Rightarrow> None
            | c # r1 \<Rightarrow>
                if c \<noteq> quote then None
                else (case dropWhile (\<lambda>x. x \<noteq> quote \<and> \<not> is_line_end x) r1 of
                        [] \<Rightarrow> None
                      | c' # r2 \<Rightarrow> if c' = quote then Some r2 else None))
      else None)"

fun replace_version :: "string \<Rightarrow> string \<Rightarrow> string" where
  "replace_version rep [] = []"
| "replace_version rep (c # cs) =
     (case version_at (c # cs) of
        Some rest \<Rightarrow> rep @ rest
      | None \<Rightarrow> c # replace_version rep cs)"

text \<open>
  \<^verbatim>\<open>setModuleVersion(pkg, version)\<close>; the replacement text is taken literally (a
  version holds no \<^verbatim>\<open>$\<close>).
\<close>

definition setModuleVersion :: "pkg \<Rightarrow> string \<Rightarrow> world \<Rightarrow> outcome \<times> world" where
  "setModuleVersion p version w =
     (let file = path_join [dir p, ''package.json'']
      in case readFileSync w file of
           Inl e \<Rightarrow> (Threw e, w)
         | Inr text \<Rightarrow>
             (Completed,
              writeFile file
                (replace_version
                   ([quote] @ ''version'' @ [quote] @ '': '' @ [quote] @ version @ [quote]) text)
                w))"

text \<open>
  \<^verbatim>\<open>version(pkg)\<close> loads the manifest as a module. Reading JSON is the runtime's: the
  parser gives the \<^verbatim>\<open>version\<close> field of a text (\<open>None\<close> when the manifest has none), or
  rejects the text.
\<close>

datatype manifest = Invalid_JSON | Manifest "string option"

type_synonym json_parser = "string \<Rightarrow> manifest"

definition version :: "json_parser \<Rightarrow> pkg \<Rightarrow> world \<Rightarrow> js_error + string option" where
  "version parse p w =
     (let file = path_join [dir p, ''package.json'']
      in case readFileSync w file of
           Inl e \<Rightarrow> Inl (SystemError ''MODULE_NOT_FOUND'' file)
         | Inr text \<Rightarrow>
             (case parse text of
                Invalid_JSON \<Rightarrow> Inl (SyntaxError file)
              | Manifest v \<Rightarrow> Inr v))"

text \<open>The four version-control commands at the end of \<open>doRelease\<close>, each of which may throw.\<close>

fun run_all :: "shell \<Rightarrow> path \<Rightarrow> string list list \<Rightarrow> world \<Rightarrow> outcome \<times> world" where
  "run_all exec wd [] w = (Completed, w)"
| "run_all exec wd (args # rest) w =
     (case run exec ''git'' args wd w of
        (Inl e, w1) \<Rightarrow> (Threw e, w1)
      | (Inr out, w1) \<Rightarrow> run_all exec wd rest w1)"

definition doRelease :: "shell \<Rightarrow> pkg \<Rightarrow> changes \<Rightarrow> string \<Rightarrow> world \<Rightarrow> outcome \<times> world" where
  "doRelease exec p chs newVersion w =
     (case setModuleVersion p newVersion w of
        (Completed, w1) \<Rightarrow>
          (case releaseNotes chs newVersion w1 of (head, body) \<Rightarrow>
             (let log = path_join [dir p, ''CHANGELOG.md'']
              in case readFileSync w1 log of
                   Inl e \<Rightarrow> (Threw e, w1)
                 | Inr old \<Rightarrow>
                     run_all exec (dir p)
                       [[''add'', ''package.json''],
                        [''add'', ''CHANGELOG.md''],
                        [''commit'', ''-m'', ''Mark version '' @ newVersion],
                        [''tag'', newVersion, ''-m'',
                         ''Version '' @ newVersion @ [nl, nl] @ body, ''--cleanup=verbatim'']]
                       (writeFile log (head @ body @ old) w1)))
      | r \<Rightarrow> r)"

text \<open>
  \<^verbatim>\<open>error(err)\<close> prints to the error stream and ends the process with status 1;
  \<^verbatim>\<open>help(status)\<close> prints the usage and ends the process with the given status.
\<close>

definition error :: "line \<Rightarrow> world \<Rightarrow> outcome \<times> world" where
  "error l w = (Exited 1, w\<lparr>console := console w @ [l]\<rparr>)"

text \<open>
  The argument loop of \<open>release\<close>, from index \<open>i\<close>: the new version and the message so
  far, or the text of the complaint. An option at the end takes \<^verbatim>\<open>undefined\<close> as its
  value. \<open>all\<close> is the whole argument list, for the complaint, which names the index in
  the earlier revision only.
\<close>

fun join_commas :: "string list \<Rightarrow> string" where
  "join_commas [] = []"
| "join_commas [x] = x"
| "join_commas (x # y # ys) = x @ '','' @ join_commas (y # ys)"

fun release_args ::
  "bool \<Rightarrow> string list \<Rightarrow> nat \<Rightarrow> string list \<Rightarrow> string option \<times> string \<Rightarrow>
   string + (string option \<times> string)" where
  "release_args later all i [] acc = Inr acc"
| "release_args later all i (a # rest) (v, message) =
     (if a = ''--version''
      then (case rest of
              [] \<Rightarrow> Inr (None, message)
            | x # rest' \<Rightarrow> release_args later all (i + 2) rest' (Some x, message))
      else if a = ''-m''
      then (case rest of
              [] \<Rightarrow> Inr (v, message @ ''undefined'' @ [nl, nl])
            | x # rest' \<Rightarrow> release_args later all (i + 2) rest' (v, message @ x @ [nl, nl]))
      else Inl (''Invalid arguments to release '' @
                (if later then [] else string_of_nat i) @ join_commas all))"

text \<open>\<^verbatim>\<open>!newVersion\<close>: no version, or the empty string.\<close>

definition no_version :: "string option \<Rightarrow> bool" where
  "no_version v = (case v of None \<Rightarrow> True | Some s \<Rightarrow> s = [])"

text \<open>
  \<^verbatim>\<open>release(pkgName, ...args)\<close>. The two revisions differ in the complaint about the
  arguments, in the version bump and in the registry that \<^verbatim>\<open>packageNames\<close> stands for;
  \<open>bump\<close> and \<open>names\<close> are the latter two. A manifest without version makes the bump
  call \<^verbatim>\<open>split\<close> on \<^verbatim>\<open>undefined\<close>.
\<close>

definition release_with ::
  "bool \<Rightarrow> (string \<Rightarrow> changes \<Rightarrow> js_error + string) \<Rightarrow> (path \<Rightarrow> string \<rightharpoonup> pkg) \<Rightarrow>
   shell \<Rightarrow> json_parser \<Rightarrow> string \<Rightarrow> string list \<Rightarrow> world \<Rightarrow> outcome \<times> world" where
  "release_with later bump names exec parse pkgName args w =
     (case names (root w) pkgName of
        None \<Rightarrow> error (Err (''No package '' @ pkgName @ '' known'')) w
      | Some p \<Rightarrow>
          (case release_args later args 0 args (None, []) of
             Inl complaint \<Rightarrow> error (Err complaint) w
           | Inr (newVersion, message) \<Rightarrow>
               (case version parse p w of
                  Inl e \<Rightarrow> (Threw e, w)
                | Inr currentVersion \<Rightarrow>
                    (case changelog exec p currentVersion (Some message) w of
                       (Inl e, w1) \<Rightarrow> (Threw e, w1)
                     | (Inr chs, w1) \<Rightarrow>
                         (case (if no_version newVersion
                                then (case currentVersion of
                                        None \<Rightarrow>
                                          Inl (TypeError ''Cannot read properties of undefined'')
                                      | Some cv \<Rightarrow> bump cv chs)
                                else Inr (the newVersion)) of
                            Inl e \<Rightarrow> (Threw e, w1)
                          | Inr nv \<Rightarrow>
                              doRelease exec p chs nv
                                (w1\<lparr>console := console w1 @
                                   [Log (''Creating '' @ pkgName @ '' '' @ nv)]\<rparr>))))))"

definition release ::
  "shell \<Rightarrow> json_parser \<Rightarrow> string \<Rightarrow> string list \<Rightarrow> world \<Rightarrow> outcome \<times> world" where
  "release = release_with False bumpVersion packageNames"

definition release_later ::
  "shell \<Rightarrow> json_parser \<Rightarrow> string \<Rightarrow> string list \<Rightarrow> world \<Rightarrow> outcome \<times> world" where
  "release_later = release_with True bumpVersion_later packageNames_later"

text \<open>The record of the one command \<open>changelog\<close> runs.\<close>

definition git_log :: "pkg \<Rightarrow> string option \<Rightarrow> string \<times> string list \<times> path" where
  "git_log p since =
     (''git'', [''log'', ''--format=%B'', ''--reverse'', string_of_value since @ ''..main''], dir p)"

subsection \<open>The commands\<close>

fun join_lines :: "string list \<Rightarrow> string" where
  "join_lines [] = []"
| "join_lines [x] = x"
| "join_lines (x # y # ys) = x @ [nl] @ join_lines (y # ys)"

definition usage :: string where
  "usage = join_lines
     [''Usage:'',
      ''  lz packages               Emit a list of all pkg names'',
      ''  lz build [--force]        Build the bundle files'',
      ''  lz watch                  Start a watching build'',
      ''  lz release <name>         Tag a release'',
      ''  lz release-all            Tag a new release for all packages'',
      ''  lz run [--cont] <cmd>     Run the given command in all packages'',
      ''  lz notes <name>           Emit pending release notes'',
      ''  lz --help'']"

definition help' :: "nat \<Rightarrow> world \<Rightarrow> outcome \<times> world" where
  "help' status w = (Exited status, w\<lparr>console := console w @ [Log usage]\<rparr>)"

definition listPackages :: "world \<Rightarrow> outcome \<times> world" where
  "listPackages w =
     (Completed,
      w\<lparr>console := console w @ [Log (join_lines (List.map name (packages (root w))))]\<rparr>)"

text \<open>
  \<^verbatim>\<open>build(...args)\<close>. The loop over the names looks each one up and rebuilds it before
  it turns to the next.
\<close>

fun build_named :: "bundler \<Rightarrow> bool \<Rightarrow> string list \<Rightarrow> world \<Rightarrow> outcome \<times> world" where
  "build_named rollup force [] w = (Completed, w)"
| "build_named rollup force (n # ns) w =
     (case find (\<lambda>t. name t = n) (packages (root w)) of
        None \<Rightarrow> (Threw (Error (''Unknown package '' @ n)), w)
      | Some found \<Rightarrow>
          (case rebuild rollup found \<lparr>esm = True, always = force\<rparr> w of
             (Completed, w1) \<Rightarrow> build_named rollup force ns w1
           | r \<Rightarrow> r))"

fun build_each :: "bundler \<Rightarrow> bool \<Rightarrow> pkg list \<Rightarrow> world \<Rightarrow> outcome \<times> world" where
  "build_each rollup force [] w = (Completed, w)"
| "build_each rollup force (p # ps) w =
     (case rebuild rollup p \<lparr>esm = True, always = force\<rparr> w of
        (Completed, w1) \<Rightarrow> build_each rollup force ps w1
      | r \<Rightarrow> r)"

text \<open>The arguments that do not start with a dash: \<^verbatim>\<open>a[0] != "-"\<close>.\<close>

definition names_of :: "string list \<Rightarrow> string list" where
  "names_of args = filter (\<lambda>a. element a 0 \<noteq> Some (CHR ''-'')) args"

definition build :: "bundler \<Rightarrow> string list \<Rightarrow> world \<Rightarrow> outcome \<times> world" where
  "build rollup args w =
     (let names = names_of args; force = (''--force'' \<in> set args)
      in if names \<noteq> [] then build_named rollup force names w
         else build_each rollup force (packages (root w)) w)"

subsection \<open>The watcher and the command that starts it\<close>

text \<open>The options of the \<^verbatim>\<open>watch\<close> command.\<close>

definition watch_options :: build_options where
  "watch_options = \<lparr>esm = False, always = False\<rparr>"

record watcher =
  pkgs :: "pkg list"
  watcher_options :: build_options
  work :: "pkg list"
  working :: bool

text \<open>
  The constructor registers a watch on every input file of every package; \<open>watches\<close>
  holds each watched path with the package its callback triggers. Watching a file that
  does not exist throws.
\<close>

fun watch_files :: "pkg \<Rightarrow> path list \<Rightarrow> world \<Rightarrow> js_error option \<times> world" where
  "watch_files p [] w = (None, w)"
| "watch_files p (f # fs) w =
     (if map_of (files w) f = None then (Some (SystemError ''ENOENT'' f), w)
      else watch_files p fs (w\<lparr>watches := watches w @ [(f, p)]\<rparr>))"

fun watch_packages :: "pkg list \<Rightarrow> world \<Rightarrow> js_error option \<times> world" where
  "watch_packages [] w = (None, w)"
| "watch_packages (p # ps) w =
     (case inputFiles p w of
        (Inl e, w1) \<Rightarrow> (Some e, w1)
      | (Inr fs, w1) \<Rightarrow>
          (case watch_files p fs w1 of
             (None, w2) \<Rightarrow> watch_packages ps w2
           | r \<Rightarrow> r))"

definition new_Watcher :: "pkg list \<Rightarrow> build_options \<Rightarrow> world \<Rightarrow> (js_error + watcher) \<times> world" where
  "new_Watcher ps opts w =
     (case watch_packages ps w of
        (Some e, w1) \<Rightarrow> (Inl e, w1)
      | (None, w1) \<Rightarrow>
          (Inr \<lparr>pkgs = ps, watcher_options = opts, work = [], working = False\<rparr>, w1))"

text \<open>
  The first loop of \<open>watch\<close>: every package is rebuilt without the esm bundle and without
  force; what a rebuild throws is logged, and the loop goes on.
\<close>

fun baseline :: "bundler \<Rightarrow> pkg list \<Rightarrow> world \<Rightarrow> outcome \<times> world" where
  "baseline rollup [] w = (Completed, w)"
| "baseline rollup (p # ps) w =
     (case rebuild rollup p watch_options w of
        (Completed, w1) \<Rightarrow> baseline rollup ps w1
      | (Threw e, w1) \<Rightarrow> baseline rollup ps (w1\<lparr>console := console w1 @ [Log_error e]\<rparr>)
      | (Exited n, w1) \<Rightarrow> (Exited n, w1))"

text \<open>
  What an identifier stands for inside \<open>watch\<close>. The function declares no variable that
  outlives its loop; at the top level the script declares the names below, of which
  \<^verbatim>\<open>packages\<close> holds the registry; the runtime has no global of the name \<^verbatim>\<open>target\<close>. An
  identifier that nothing declares is a reference error.
\<close>

datatype binding = Registry "pkg list" | Other_value

definition declared_names :: "string list" where
  "declared_names =
     [''child'', ''fs'', ''fsp'', ''path'', ''root'', ''Pkg'', ''baseCompilerOptions'',
      ''tsPlugin'', ''packages'', ''packageNames'', ''start'', ''help'', ''error'', ''run'',
      ''listPackages'', ''maybeWriteFile'', ''runRollup'', ''fileTime'', ''rebuild'',
      ''Watcher'', ''build'', ''watch'', ''changelog'', ''bumpVersion'', ''releaseNotes'',
      ''setModuleVersion'', ''version'', ''doRelease'', ''release'', ''releaseAll'',
      ''bumpDeps'', ''runCmd'', ''notes'']"

definition resolve :: "world \<Rightarrow> string \<Rightarrow> js_error + binding" where
  "resolve w x =
     (if x = ''packages'' then Inr (Registry (packages (root w)))
      else if x \<in> set declared_names then Inr Other_value
      else Inl (ReferenceError (x @ '' is not defined'')))"

text \<open>
  \<^verbatim>\<open>watch()\<close>: the baseline, then \<^verbatim>\<open>new Watcher(target, {esm: false})\<close> and the line
  \<^verbatim>\<open>Watching...\<close>. The argument \<^verbatim>\<open>target\<close> is evaluated before the constructor runs.
\<close>

definition watch :: "bundler \<Rightarrow> world \<Rightarrow> outcome \<times> world" where
  "watch rollup w =
     (case baseline rollup (packages (root w)) w of
        (Completed, w1) \<Rightarrow>
          (case resolve w1 ''target'' of
             Inl e \<Rightarrow> (Threw e, w1)
           | Inr Other_value \<Rightarrow> (Threw (TypeError ''pkgs is not iterable''), w1)
           | Inr (Registry ps) \<Rightarrow>
               (case new_Watcher ps watch_options w1 of
                  (Inl e, w2) \<Rightarrow> (Threw e, w2)
                | (Inr wt, w2) \<Rightarrow>
                    (Completed, w2\<lparr>console := console w2 @ [Log ''Watching...'']\<rparr>)))
      | r \<Rightarrow> r)"

subsection \<open>The scheduler of the watcher\<close>

text \<open>
  The methods \<open>trigger\<close>, \<open>startWork\<close> and \<open>run\<close> of the watcher run on the event loop of
  the runtime: a callback runs to its end before the next one starts, and what follows
  an \<^verbatim>\<open>await\<close> runs when the awaited promise has settled. The rebuild of a package is
  seen here only through its two ends, the call and the settling of its promise.
\<close>

datatype event = Started pkg | Finished pkg "js_error option"
















text \<open>
  How far the rebuild of a pending package \<open>a\<close> has come, and the traces in which \<open>b\<close>
  is not started before the rebuild of \<open>a\<close> is over.
\<close>

datatype phase = Waiting | Building | Over

fun monitor :: "pkg \<Rightarrow> pkg \<Rightarrow> phase \<Rightarrow> event list \<Rightarrow> bool" where
  "monitor a b ph [] = True"
| "monitor a b Over (e # es) = True"
| "monitor a b Waiting (e # es) =
     (e \<noteq> Started b \<and> monitor a b (if e = Started a then Building else Waiting) es)"
| "monitor a b Building (e # es) =
     (e \<noteq> Started b \<and> monitor a b (if \<exists>r. e = Finished a r then Over else Building) es)"


subsection \<open>The dispatch of a command line\<close>

datatype command =
  Packages | Build | Watch | Release | ReleaseAll | BumpDeps | Run | Help | Notes

definition own_commands :: "(string \<times> command) list" where
  "own_commands =
     [(''packages'', Packages), (''build'', Build), (''watch'', Watch), (''release'', Release),
      (''release-all'', ReleaseAll), (''bump-deps'', BumpDeps), (''run'', Run),
      (''--help'', Help), (''notes'', Notes)]"

text \<open>
  The table of \<open>start\<close> is an object literal, so a lookup that finds no command of the
  script still finds what every object inherits.
\<close>

definition inherited_names :: "string list" where
  "inherited_names =
     [''constructor'', ''__defineGetter__'', ''__defineSetter__'', ''hasOwnProperty'',
      ''__lookupGetter__'', ''__lookupSetter__'', ''isPrototypeOf'', ''propertyIsEnumerable'',
      ''toString'', ''valueOf'', ''__proto__'', ''toLocaleString'']"

datatype entry = Own command | Inherited string

definition cmdFn :: "string option \<Rightarrow> entry option" where
  "cmdFn c =
     (case map_of own_commands (string_of_value c) of
        Some x \<Rightarrow> Some (Own x)
      | None \<Rightarrow>
          if string_of_value c \<in> set inherited_names then Some (Inherited (string_of_value c))
          else None)"

text \<open>
  \<^verbatim>\<open>cmdFn.length\<close>: the number of parameters before a rest parameter; the inherited
  prototype object has no length.
\<close>

definition entry_length :: "entry \<Rightarrow> nat option" where
  "entry_length e =
     (case e of
        Own c \<Rightarrow> Some (if c = Release \<or> c = BumpDeps \<or> c = Notes then 1 else 0)
      | Inherited n \<Rightarrow>
          if n = ''__proto__'' then None
          else if n \<in> set [''__defineGetter__'', ''__defineSetter__''] then Some 2
          else if n \<in> set [''toString'', ''valueOf'', ''toLocaleString''] then Some 0
          else Some 1)"

text \<open>
  \<^verbatim>\<open>if (!cmdFn || cmdFn.length > args.length) help(1)\<close>: the entry that is applied, or
  \<open>None\<close> for the usage.
\<close>

definition start_select :: "string option \<Rightarrow> string list \<Rightarrow> entry option" where
  "start_select c args =
     (case cmdFn c of
        None \<Rightarrow> None
      | Some e \<Rightarrow>
          (case entry_length e of
             None \<Rightarrow> Some e
           | Some n \<Rightarrow> if n > length args then None else Some e))"

text \<open>\<^verbatim>\<open>.catch(e => error(e))\<close> on the promise of the command.\<close>

definition settle :: "outcome \<times> world \<Rightarrow> outcome \<times> world" where
  "settle r =
     (case r of
        (Threw e, w) \<Rightarrow> error (Err_error e) w
      | _ \<Rightarrow> r)"

text \<open>
  \<^verbatim>\<open>start()\<close> on the command and the arguments of the process. The commands
  \<^verbatim>\<open>release-all\<close>, \<^verbatim>\<open>bump-deps\<close>, \<^verbatim>\<open>run\<close> and \<^verbatim>\<open>notes\<close> and the inherited values, which
  this development does not follow, are the parameter \<open>other\<close>.
\<close>

definition start ::
  "bundler \<Rightarrow> shell \<Rightarrow> json_parser \<Rightarrow> (entry \<Rightarrow> string list \<Rightarrow> world \<Rightarrow> outcome \<times> world) \<Rightarrow>
   string option \<Rightarrow> string list \<Rightarrow> world \<Rightarrow> outcome \<times> world" where
  "start rollup exec parse other c args w =
     (case start_select c args of
        None \<Rightarrow> help' 1 w
      | Some e \<Rightarrow>
          settle
            (case e of
               Own Packages \<Rightarrow> listPackages w
             | Own Build \<Rightarrow> build rollup args w
             | Own Watch \<Rightarrow> watch rollup w
             | Own Release \<Rightarrow> release exec parse (hd args) (tl args) w
             | Own Help \<Rightarrow> help' 0 w
             | _ \<Rightarrow> other e args w))"

text \<open>
  What a build leaves alone: the root, the watches, the record of commands and the date;
  and a build never ends the process.
\<close>

definition stays :: "world \<Rightarrow> outcome \<times> world \<Rightarrow> bool" where
  "stays w r \<longleftrightarrow>
     root (snd r) = root w \<and> watches (snd r) = watches w \<and> commands (snd r) = commands w \<and>
     today (snd r) = today w \<and> (\<forall>n. fst r \<noteq> Exited n)"

text \<open>For the parameter of \<open>start\<close>: commands that do nothing.\<close>

definition no_other :: "entry \<Rightarrow> string list \<Rightarrow> world \<Rightarrow> outcome \<times> world" where
  "no_other e args w = (Completed, w)"

subsection \<open>The staleness decision in the words of the specification\<close>

text \<open>
  The modification time the driver compares: \<open>-1\<close> for a missing file. In this file
  system \<open>fileTime\<close> never raises, and this is its value.
\<close>

definition file_time :: "world \<Rightarrow> path \<Rightarrow> rat" where
  "file_time w p = (case map_of (files w) p of None \<Rightarrow> - 1 | Some f \<Rightarrow> mtime f)"

text \<open>
  The output files a configuration requires: the cjs bundle always, the esm bundle when
  the alternate format is requested.
\<close>

definition required_outputs :: "pkg \<Rightarrow> build_options \<Rightarrow> path list" where
  "required_outputs p opts = cjsFile p # (if esm opts then [esmFile p] else [])"

text \<open>The minimum modification time over the required outputs.\<close>

definition oldest_output_time :: "world \<Rightarrow> pkg \<Rightarrow> build_options \<Rightarrow> rat" where
  "oldest_output_time w p opts = Min (set (List.map (file_time w) (required_outputs p opts)))"

text \<open>The maximum modification time over the input files (of a list that is not empty).\<close>

definition newest_input_time :: "world \<Rightarrow> path list \<Rightarrow> rat" where
  "newest_input_time w ins = Max (set (List.map (file_time w) ins))"

definition output_missing :: "world \<Rightarrow> pkg \<Rightarrow> build_options \<Rightarrow> bool" where
  "output_missing w p opts = list_ex (\<lambda>f. map_of (files w) f = None) (required_outputs p opts)"

text \<open>
  The decision as the specification words it: the oldest output is strictly older than
  the newest input, or the rebuild is forced, or an output is missing.
\<close>

definition claimed_rebuild_required ::
  "world \<Rightarrow> pkg \<Rightarrow> build_options \<Rightarrow> path list \<Rightarrow> bool" where
  "claimed_rebuild_required w p opts ins =
     (oldest_output_time w p opts < newest_input_time w ins \<or> always opts \<or>
      output_missing w p opts)"

subsection \<open>The write log of a run\<close>


definition same_on_disk :: "world \<Rightarrow> path \<Rightarrow> string \<Rightarrow> bool" where
  "same_on_disk w p data = (case map_of (files w) p of None \<Rightarrow> False | Some f \<Rightarrow> content f = data)"


text \<open>
  A run from \<open>w\<close> to \<open>w1\<close> that adds the writes \<open>ws\<close> and leaves every other path as
  it was; the paths the loop body may write for one artifact; and the writes it makes
  when it does not fail, in terms of the state before.
\<close>

definition extends :: "world \<Rightarrow> (path \<times> string) list \<Rightarrow> world \<Rightarrow> bool" where
  "extends w ws w1 \<longleftrightarrow>
     writes w1 = writes w @ ws \<and>
     (\<forall>p. p \<notin> fst ` set ws \<longrightarrow> map_of (files w1) p = map_of (files w) p)"


definition main_write :: "output_options \<Rightarrow> path \<Rightarrow> artifact \<Rightarrow> world \<Rightarrow> (path \<times> string) list" where
  "main_write out d f w =
     (case artifact_code f of
        None \<Rightarrow> []
      | Some c \<Rightarrow>
          if \<not> is_declaration (fileName f) then [(path_join [d, fileName f], c)]
          else if format out = ''cjs'' \<and>
                  \<not> same_on_disk w (path_join [d, fileName f]) (declaration_text (fileName f) c)
          then [(path_join [d, fileName f], declaration_text (fileName f) c)]
          else [])"

definition map_write :: "path \<Rightarrow> artifact \<Rightarrow> (path \<times> string) list" where
  "map_write d f =
     (case map' f of None \<Rightarrow> [] | Some m \<Rightarrow> [(path_join [d, fileName f @ ''.map''], m)])"

definition artifact_fails :: "output_options \<Rightarrow> artifact \<Rightarrow> bool" where
  "artifact_fails out f =
     (artifact_code f = None \<and> (\<not> is_declaration (fileName f) \<or> format out = ''cjs''))"

subsection \<open>A sample state\<close>

text \<open>
  The package \<open>lr\<close> with one source file that imports from \<open>common\<close> twice, its outputs
  built at time \<open>t\<close>, and the declaration file of \<open>common\<close>; a bundler that produces
  for each output the bundle code with a source map and one declaration file, the same
  as the one on disk.
\<close>

definition lr_pkg :: pkg where
  "lr_pkg = Pkg ''/lezer'' ''lr'' no_options"

definition common_pkg :: pkg where
  "common_pkg = Pkg ''/lezer'' ''common'' no_options"

definition import_common :: string where
  "import_common = ''import {Tree} from '' @ [quote] @ ''../../common'' @ [quote] @ [nl]"

definition sample_manifest :: string where
  "sample_manifest =
     ''{'' @ [quote] @ ''name'' @ [quote] @ '': '' @ [quote] @ ''lezer-lr'' @ [quote] @ '', '' @
     [quote] @ ''version'' @ [quote] @ '': '' @ [quote] @ ''0.13.0'' @ [quote] @ ''}''"

definition lr_world :: "rat \<Rightarrow> world" where
  "lr_world t =
     \<lparr>root = ''/lezer'',
      files =
        [(''/lezer/lr/src/index.ts'', \<lparr>content = import_common @ import_common, mtime = 10\<rparr>),
         (''/lezer/lr/dist/index.js'', \<lparr>content = ''exports.x = 1'', mtime = t\<rparr>),
         (''/lezer/lr/dist/index.es.js'', \<lparr>content = ''export let x = 1'', mtime = t\<rparr>),
         (''/lezer/lr/dist/index.d.ts'', \<lparr>content = ''export declare let x'', mtime = t\<rparr>),
         (''/lezer/common/dist/index.d.ts'', \<lparr>content = ''export declare class Tree'', mtime = 5\<rparr>),
         (''/lezer/lr/package.json'', \<lparr>content = sample_manifest, mtime = 1\<rparr>),
         (''/lezer/lr/CHANGELOG.md'', \<lparr>content = ''## 0.13.0'' @ [nl], mtime = 1\<rparr>)],
      dirs = [''/lezer/lr/src'', ''/lezer/lr/dist'', ''/lezer/common/dist''],
      now = 100,
      today = (2021, 0, 15),
      console = [],
      writes = [],
      bundled = [],
      commands = [],
      watches = [],
      dependencies_cache = Map.empty,
      rollup_cache = Map.empty\<rparr>"

definition build_all :: build_options where
  "build_all = \<lparr>esm = True, always = False\<rparr>"

definition sample_declaration :: artifact where
  "sample_declaration =
     \<lparr>fileName = ''index.d.ts'', code = None, source = Some ''export declare let x'',
      map' = None\<rparr>"

definition sample_code :: "output_options \<Rightarrow> artifact" where
  "sample_code out =
     \<lparr>fileName = basename (file' out), code = Some ''exports.x = 2'', source = None,
      map' = Some ''{}''\<rparr>"

definition sample_bundle :: rollup_bundle where
  "sample_bundle =
     \<lparr>duration = 7, generate = (\<lambda>out. Inr [sample_code out, sample_declaration])\<rparr>"

definition sample_bundler :: bundler where
  "sample_bundler config w = Inr sample_bundle"

text \<open>
  Version control that prints nothing and never fails, and a reader of manifests that
  finds the version 0.13.0.
\<close>

definition quiet_git :: shell where
  "quiet_git cmd args wd w = Some []"

definition sample_parser :: json_parser where
  "sample_parser text = Manifest (Some ''0.13.0'')"




text \<open>
  The package \<open>highlight\<close>, which only the later registry has, in a state that holds its
  manifest and its change log.
\<close>

definition highlight_pkg :: pkg where
  "highlight_pkg = Pkg ''/lezer'' ''highlight'' (no_options\<lparr>entry_option := Some ''highlight''\<rparr>)"

definition highlight_world :: world where
  "highlight_world =
     \<lparr>root = ''/lezer'',
      files =
        [(''/lezer/highlight/package.json'', \<lparr>content = sample_manifest, mtime = 1\<rparr>),
         (''/lezer/highlight/CHANGELOG.md'', \<lparr>content = ''## 0.13.0'' @ [nl], mtime = 1\<rparr>)],
      dirs = [''/lezer/highlight''],
      now = 100,
      today = (2021, 0, 15),
      console = [],
      writes = [],
      bundled = [],
      commands = [],
      watches = [],
      dependencies_cache = Map.empty,
      rollup_cache = Map.empty\<rparr>"







section \<open>Version bumps\<close>







section \<open>Effects of the build driver\<close>

text \<open>In this file system \<open>fileTime\<close> has a value for every path.\<close>

lemma fileTime_total: "fileTime w p = Inr (file_time w p)"
  by (simp add: fileTime_def file_time_def statSync_def error_code_def split: option.splits)

lemma some_as_new_eq: "some_as_new w t fs = Inr (list_ex (\<lambda>f. t \<le> file_time w f) fs)"
  by (induction fs) (simp_all add: fileTime_total)

text \<open>Reading the dependencies and the input files changes the dependency cache only.\<close>

lemma dependencies_frame:
  "dependencies p w = (r, w1) \<Longrightarrow> w1 = w\<lparr>dependencies_cache := dependencies_cache w1\<rparr>"
  by (auto simp: dependencies_def split: option.splits sum.splits prod.splits)

lemma inputFiles_frame:
  "inputFiles p w = (r, w1) \<Longrightarrow> w1 = w\<lparr>dependencies_cache := dependencies_cache w1\<rparr>"
  by (auto simp: inputFiles_def split: option.splits sum.splits prod.splits dest: dependencies_frame)

lemma file_time_frame: "files w1 = files w \<Longrightarrow> file_time w1 = file_time w"
  by (auto simp: file_time_def fun_eq_iff)

lemma Math_min_oldest:
  "Math_min (file_time w (cjsFile p)) (if esm opts then Some (file_time w (esmFile p)) else None)
     = oldest_output_time w p opts"
  by (simp add: Math_min_def oldest_output_time_def required_outputs_def min_def)

lemma list_ex_Max: "fs \<noteq> [] \<Longrightarrow> list_ex (\<lambda>f. t \<le> g f) fs \<longleftrightarrow> t \<le> Max (set (List.map g fs))"
  by (auto simp: list_ex_iff Max_ge_iff)

text \<open>Writing artifacts leaves the console and the record of bundler calls alone.\<close>

lemma writeFile_frame [simp]:
  "console (writeFile q d w) = console w" "bundled (writeFile q d w) = bundled w"
  by (simp_all add: writeFile_def)

lemma mkdir_frame [simp]:
  "console (mkdir d w) = console w" "bundled (mkdir d w) = bundled w"
  by (simp_all add: mkdir_def)

lemma maybeWriteFile_frame:
  "maybeWriteFile q d w = (r, w1) \<Longrightarrow> console w1 = console w \<and> bundled w1 = bundled w"
  by (auto simp: maybeWriteFile_def split: sum.splits if_splits)

lemma write_value_frame:
  "write_value q v w = (r, w1) \<Longrightarrow> console w1 = console w \<and> bundled w1 = bundled w"
  by (auto simp: write_value_def split: option.splits)

lemma write_artifact_frame:
  "write_artifact out d f w = (r, w1) \<Longrightarrow> console w1 = console w \<and> bundled w1 = bundled w"
  by (auto simp: write_artifact_def Let_def
      split: option.splits if_splits prod.splits outcome.splits
      dest!: maybeWriteFile_frame write_value_frame)

lemma write_artifacts_frame:
  "write_artifacts out d fs w = (r, w1) \<Longrightarrow> console w1 = console w \<and> bundled w1 = bundled w"
proof (induction fs arbitrary: w)
  case Nil
  then show ?case by simp
next
  case (Cons f fs)
  obtain r0 w0 where s: "write_artifact out d f w = (r0, w0)"
    by (cases "write_artifact out d f w")
  then have f0: "console w0 = console w \<and> bundled w0 = bundled w"
    by (rule write_artifact_frame)
  show ?case
  proof (cases r0)
    case Completed
    with Cons.prems s have "write_artifacts out d fs w0 = (r, w1)" by simp
    then have "console w1 = console w0 \<and> bundled w1 = bundled w0" by (rule Cons.IH)
    with f0 show ?thesis by simp
  next
    case (Threw e)
    with Cons.prems s f0 show ?thesis by auto
  next
    case (Exited n)
    with Cons.prems s f0 show ?thesis by auto
  qed
qed

lemma write_outputs_frame:
  "write_outputs b outs w = (r, w1) \<Longrightarrow> console w1 = console w \<and> bundled w1 = bundled w"
proof (induction outs arbitrary: w)
  case Nil
  then show ?case by simp
next
  case (Cons out outs)
  show ?case
  proof (cases "generate b out")
    case (Inl e)
    with Cons.prems show ?thesis by simp
  next
    case (Inr result)
    let ?d = "dirname (file' out)"
    obtain r0 w0 where s: "write_artifacts out ?d result (mkdir ?d w) = (r0, w0)"
      by (cases "write_artifacts out ?d result (mkdir ?d w)")
    then have f0: "console w0 = console w \<and> bundled w0 = bundled w"
      by (auto dest: write_artifacts_frame)
    show ?thesis
    proof (cases r0)
      case Completed
      with Cons.prems s Inr have "write_outputs b outs w0 = (r, w1)" by (simp add: Let_def)
      then have "console w1 = console w0 \<and> bundled w1 = bundled w0" by (rule Cons.IH)
      with f0 show ?thesis by simp
    next
      case (Threw e)
      with Cons.prems s Inr f0 show ?thesis by (auto simp: Let_def)
    next
      case (Exited n)
      with Cons.prems s Inr f0 show ?thesis by (auto simp: Let_def)
    qed
  qed
qed

lemma runRollup_frame:
  "runRollup rollup c w = (r, w1) \<Longrightarrow> console w1 = console w \<and> bundled w1 = bundled w @ [c]"
  by (auto simp: runRollup_def Let_def split: sum.splits dest!: write_outputs_frame)

lemma rollupConfig_frame:
  "rollupConfig p opts w = (c, w1) \<Longrightarrow> console w1 = console w \<and> bundled w1 = bundled w"
  by (auto simp: rollupConfig_def Let_def split: option.splits)

lemma rollupConfig_fst:
  "rollup_cache w1 = rollup_cache w \<Longrightarrow> root w1 = root w \<Longrightarrow>
   fst (rollupConfig p opts w1) = fst (rollupConfig p opts w)"
  by (simp add: rollupConfig_def Let_def split: option.splits)

text \<open>A build that runs calls the bundler once and starts with its log line.\<close>

lemma run_build_effects:
  "bundled (snd (run_build rollup p opts w)) = bundled w @ [fst (rollupConfig p opts w)] \<and>
   prefix (console w @ [Log (''Building '' @ name p @ ''...'')])
     (console (snd (run_build rollup p opts w)))"
proof -
  let ?w1 = "w\<lparr>console := console w @ [Log (''Building '' @ name p @ ''...'')]\<rparr>"
  obtain c w2 where rc: "rollupConfig p opts ?w1 = (c, w2)"
    by (cases "rollupConfig p opts ?w1")
  then have f2: "console w2 = console ?w1 \<and> bundled w2 = bundled ?w1"
    by (rule rollupConfig_frame)
  have c: "c = fst (rollupConfig p opts w)"
    using rc rollupConfig_fst [of ?w1 w p opts] by simp
  obtain r w3 where rr: "runRollup rollup c w2 = (r, w3)"
    by (cases "runRollup rollup c w2")
  then have f3: "console w3 = console w2 \<and> bundled w3 = bundled w2 @ [c]"
    by (rule runRollup_frame)
  show ?thesis
    using rc rr f2 f3 c by (cases r) (auto simp: run_build_def Let_def)
qed

text \<open>\<open>rebuild\<close> with the file times read.\<close>

lemma rebuild_unfold:
  "rebuild rollup p opts w =
     (if always opts \<or> oldest_output_time w p opts < 0 then run_build rollup p opts w
      else (case inputFiles p w of
              (Inl e, w1) \<Rightarrow> (Threw e, w1)
            | (Inr ins, w1) \<Rightarrow>
                if list_ex (\<lambda>f. oldest_output_time w p opts \<le> file_time w1 f) ins
                then run_build rollup p opts w1 else (Completed, w1)))"
proof (cases "esm opts")
  case True
  then show ?thesis
    by (auto simp: rebuild_def fileTime_total Math_min_def oldest_output_time_def
        required_outputs_def some_as_new_eq Let_def split: prod.splits sum.splits)
next
  case False
  then show ?thesis
    by (auto simp: rebuild_def fileTime_total Math_min_def oldest_output_time_def
        required_outputs_def some_as_new_eq Let_def split: prod.splits sum.splits)
qed

section \<open>The sample state\<close>

lemma packageNames_common: "packageNames ''/lezer'' ''common'' = Some common_pkg"
  by (simp add: packageNames_def packages_def Pkg_def common_pkg_def)

lemma imports_twice: "imports_from True (import_common @ import_common) = [''common'', ''common'']"
  by (simp add: import_common_def imports_from.simps import_at_def import_statement_def
      from_clause_def from_literal_def quote_def is_space_def space_chars_def is_name_char_def
      is_word_def word_chars_def is_line_end_def nl_def cr_def)

lemma sources_lr: "sources lr_pkg (lr_world t) = Inr [''/lezer/lr/src/index.ts'']"
  by (simp add: sources_def lr_pkg_def Pkg_def lr_world_def readdirSync_def dirname_def
      basename_def Let_def suffix_to_prefix)

lemma dependencies_lr:
  "dependencies lr_pkg (lr_world t) =
     (Inr [common_pkg, common_pkg],
      (lr_world t)\<lparr>dependencies_cache := [''lr'' \<mapsto> [common_pkg, common_pkg]]\<rparr>)"
proof -
  have r: "readFileSync (lr_world t) ''/lezer/lr/src/index.ts'' = Inr (import_common @ import_common)"
    by (simp add: readFileSync_def lr_world_def)
  have n: "name lr_pkg = ''lr''" by (simp add: lr_pkg_def Pkg_def)
  have c: "dependencies_cache (lr_world t) = Map.empty" "root (lr_world t) = ''/lezer''"
    by (simp_all add: lr_world_def)
  show ?thesis
    by (simp add: dependencies_def sources_lr r n c imports_twice packageNames_common
        Array_includes_def)
qed

lemma declarations_common:
  "declarations common_pkg ((lr_world t)\<lparr>dependencies_cache := c\<rparr>) =
     Inr [''/lezer/common/dist/index.d.ts'']"
  by (simp add: declarations_def common_pkg_def Pkg_def lr_world_def readdirSync_def
      existsSync_def dirname_def basename_def Let_def suffix_to_prefix)

lemma inputFiles_lr:
  "inputFiles lr_pkg (lr_world t) =
     (Inr [''/lezer/lr/src/index.ts'', ''/lezer/common/dist/index.d.ts'',
           ''/lezer/common/dist/index.d.ts''],
      (lr_world t)\<lparr>dependencies_cache := [''lr'' \<mapsto> [common_pkg, common_pkg]]\<rparr>)"
  by (simp add: inputFiles_def sources_lr dependencies_lr declarations_common)

lemma lr_outputs:
  "required_outputs lr_pkg build_all = [''/lezer/lr/dist/index.js'', ''/lezer/lr/dist/index.es.js'']"
  by (simp add: required_outputs_def build_all_def cjsFile_def esmFile_def lr_pkg_def Pkg_def)

lemma lr_oldest: "oldest_output_time (lr_world t) lr_pkg build_all = t"
  by (simp add: oldest_output_time_def lr_outputs file_time_def lr_world_def)

lemma lr_newest:
  "newest_input_time (lr_world t)
     [''/lezer/lr/src/index.ts'', ''/lezer/common/dist/index.d.ts'',
      ''/lezer/common/dist/index.d.ts''] = 10"
  by (simp add: newest_input_time_def file_time_def lr_world_def)

lemma lr_present: "\<not> output_missing (lr_world t) lr_pkg build_all"
  by (simp add: output_missing_def lr_outputs lr_world_def)

lemma lr_nonneg:
  "0 \<le> t \<Longrightarrow> \<forall>f\<in>set (required_outputs lr_pkg build_all).
     0 \<le> file_time (lr_world t) f \<or> map_of (files (lr_world t)) f = None"
  by (simp add: lr_outputs file_time_def lr_world_def)

lemma lr_rollupConfig:
  "fst (rollupConfig lr_pkg build_all (lr_world t)) = new_config ''/lezer'' lr_pkg build_all"
  by (simp add: rollupConfig_def lr_world_def Let_def)

section \<open>The staleness decision\<close>

text \<open>
  C1, as the code decides: when the input files can be listed and the outputs that exist
  have times from 0 on, \<open>rebuild\<close> calls the bundler (once, after the log line
  \<^verbatim>\<open>Building ...\<close>) exactly when the rebuild is forced, or a required output is missing, or
  there is an input and the oldest required output is no newer than the newest input
  (equal times count as stale). Otherwise \<open>rebuild\<close> returns with the console, the
  bundler calls, the files and the directories as they were; the dependency cache is the
  only field it may have filled.
\<close>

theorem rebuild_decision:
  assumes ins: "inputFiles p w = (Inr ins, w1)"
    and nonneg: "\<forall>f\<in>set (required_outputs p opts). 0 \<le> file_time w f \<or> map_of (files w) f = None"
  shows "(if always opts \<or> output_missing w p opts \<or>
             (ins \<noteq> [] \<and> oldest_output_time w p opts \<le> newest_input_time w ins)
          then bundled (snd (rebuild rollup p opts w)) =
                 bundled w @ [fst (rollupConfig p opts w)] \<and>
               prefix (console w @ [Log (''Building '' @ name p @ ''...'')])
                 (console (snd (rebuild rollup p opts w)))
          else rebuild rollup p opts w = (Completed, w1) \<and>
               console w1 = console w \<and> bundled w1 = bundled w \<and>
               files w1 = files w \<and> dirs w1 = dirs w)"
proof -
  let ?t = "oldest_output_time w p opts"
  from ins have fr: "w1 = w\<lparr>dependencies_cache := dependencies_cache w1\<rparr>"
    by (rule inputFiles_frame)
  have same: "console w1 = console w" "bundled w1 = bundled w"
    "files w1 = files w" "dirs w1 = dirs w" "rollup_cache w1 = rollup_cache w" "root w1 = root w"
    by (subst fr, simp)+
  have ft: "file_time w1 = file_time w"
    using same(3) by (rule file_time_frame)
  have neg: "?t < 0 \<longleftrightarrow> output_missing w p opts"
    using nonneg
    by (auto simp: oldest_output_time_def output_missing_def required_outputs_def
        file_time_def min_def split: option.splits if_splits)
  have newer: "list_ex (\<lambda>f. ?t \<le> file_time w f) ins \<longleftrightarrow>
      (ins \<noteq> [] \<and> ?t \<le> newest_input_time w ins)"
    by (cases "ins = []") (simp_all add: list_ex_Max newest_input_time_def)
  have eff1: "bundled (snd (run_build rollup p opts w1)) =
        bundled w @ [fst (rollupConfig p opts w)] \<and>
      prefix (console w @ [Log (''Building '' @ name p @ ''...'')])
        (console (snd (run_build rollup p opts w1)))"
    using run_build_effects [of rollup p opts w1] same rollupConfig_fst [of w1 w p opts]
    by simp
  have eff: "bundled (snd (run_build rollup p opts w)) =
        bundled w @ [fst (rollupConfig p opts w)] \<and>
      prefix (console w @ [Log (''Building '' @ name p @ ''...'')])
        (console (snd (run_build rollup p opts w)))"
    by (rule run_build_effects)
  show ?thesis
  proof (cases "always opts \<or> ?t < 0")
    case True
    then have "rebuild rollup p opts w = run_build rollup p opts w"
      by (simp add: rebuild_unfold)
    with True neg eff show ?thesis by auto
  next
    case False
    then have r: "rebuild rollup p opts w =
        (if list_ex (\<lambda>f. ?t \<le> file_time w f) ins
         then run_build rollup p opts w1 else (Completed, w1))"
      by (simp add: rebuild_unfold ins ft)
    show ?thesis
    proof (cases "list_ex (\<lambda>f. ?t \<le> file_time w f) ins")
      case True
      with r have "rebuild rollup p opts w = run_build rollup p opts w1" by simp
      with True newer eff1 show ?thesis by simp
    next
      case no: False
      with r have "rebuild rollup p opts w = (Completed, w1)" by simp
      with no False neg newer same show ?thesis by simp
    qed
  qed
qed

theorem rebuild_decision_witness:
  "rebuild sample_bundler lr_pkg build_all (lr_world 20) =
     (Completed, (lr_world 20)\<lparr>dependencies_cache := [''lr'' \<mapsto> [common_pkg, common_pkg]]\<rparr>) \<and>
   bundled (snd (rebuild sample_bundler lr_pkg build_all (lr_world 10))) =
     [new_config ''/lezer'' lr_pkg build_all] \<and>
   prefix [Log ''Building lr...''] (console (snd (rebuild sample_bundler lr_pkg build_all (lr_world 10))))"
proof -
  have n: "(0::rat) \<le> 20" "(0::rat) \<le> 10" by simp_all
  have a: "\<not> always build_all" by (simp add: build_all_def)
  have e: "bundled (lr_world 10) = []" "console (lr_world 10) = []" "name lr_pkg = ''lr''"
    by (simp_all add: lr_world_def lr_pkg_def Pkg_def)
  show ?thesis
    using rebuild_decision [OF inputFiles_lr lr_nonneg [OF n(1)], of sample_bundler]
      rebuild_decision [OF inputFiles_lr lr_nonneg [OF n(2)], of sample_bundler]
    by (simp add: a lr_present lr_oldest lr_newest lr_rollupConfig e)
qed

text \<open>
  With the outputs and the newest input written at the same time 10, the decision in the
  specification's words says that no rebuild is required, and \<open>rebuild\<close> builds.
\<close>

theorem rebuild_strict_counterexample:
  "fst (inputFiles lr_pkg (lr_world 10)) =
     Inr [''/lezer/lr/src/index.ts'', ''/lezer/common/dist/index.d.ts'',
          ''/lezer/common/dist/index.d.ts''] \<and>
   \<not> claimed_rebuild_required (lr_world 10) lr_pkg build_all
       [''/lezer/lr/src/index.ts'', ''/lezer/common/dist/index.d.ts'',
        ''/lezer/common/dist/index.d.ts''] \<and>
   bundled (snd (rebuild sample_bundler lr_pkg build_all (lr_world 10))) =
     [new_config ''/lezer'' lr_pkg build_all] \<and>
   prefix [Log ''Building lr...''] (console (snd (rebuild sample_bundler lr_pkg build_all (lr_world 10))))"
proof -
  let ?w1 = "(lr_world 10)\<lparr>dependencies_cache := [''lr'' \<mapsto> [common_pkg, common_pkg]]\<rparr>"
  have a: "\<not> always build_all" by (simp add: build_all_def)
  have ft: "file_time ?w1 ''/lezer/lr/src/index.ts'' = 10"
    by (simp add: file_time_def lr_world_def)
  have r: "rebuild sample_bundler lr_pkg build_all (lr_world 10) =
      run_build sample_bundler lr_pkg build_all ?w1"
    by (simp add: rebuild_unfold a lr_oldest inputFiles_lr ft)
  have c: "fst (rollupConfig lr_pkg build_all ?w1) = new_config ''/lezer'' lr_pkg build_all"
    by (simp add: rollupConfig_def lr_world_def Let_def)
  have e: "bundled ?w1 = []" "console ?w1 = []" "name lr_pkg = ''lr''"
    by (simp_all add: lr_world_def lr_pkg_def Pkg_def)
  have "\<not> claimed_rebuild_required (lr_world 10) lr_pkg build_all
       [''/lezer/lr/src/index.ts'', ''/lezer/common/dist/index.d.ts'',
        ''/lezer/common/dist/index.d.ts'']"
    by (simp add: claimed_rebuild_required_def lr_oldest lr_newest lr_present a)
  then show ?thesis
    using run_build_effects [of sample_bundler lr_pkg build_all ?w1]
    by (simp add: r c e inputFiles_lr)
qed

section \<open>The dependencies of a package\<close>

text \<open>
  The test \<^verbatim>\<open>!this._dependencies.includes(m[1])\<close> asks an array of package objects for a
  string, so it always holds: every import of a registered package is pushed, repeated
  ones too.
\<close>

lemma name_not_included: "\<not> Array_includes (List.map JPkg deps) (JString m)"
  by (auto simp: Array_includes_def)

lemma push_imports_all:
  "push_imports r ms deps =
     deps @ List.map (\<lambda>m. the (packageNames r m)) (filter (\<lambda>m. packageNames r m \<noteq> None) ms)"
  by (induction ms arbitrary: deps) (simp_all add: name_not_included)

text \<open>
  C2 at a source file with two imports from \<open>common\<close>: the computed dependencies hold
  \<open>common\<close> twice.
\<close>

theorem dependencies_repeat:
  "fst (dependencies lr_pkg (lr_world 10)) = Inr [common_pkg, common_pkg] \<and>
   \<not> distinct [common_pkg, common_pkg]"
  by (simp add: dependencies_lr)

section \<open>The bundler configuration is computed once\<close>

text \<open>
  C10: on a package without a stored configuration, \<open>rollupConfig\<close> with options \<open>o1\<close>
  returns the configuration computed from \<open>o1\<close>, and from then on, in every state that
  still holds the package's stored configuration, \<open>rollupConfig\<close> with any options \<open>o2\<close>
  returns that same configuration and leaves the state as it is. So the outputs, and with
  them whether the esm bundle is produced, are those of the first call. Both revisions
  of the function behave so.
\<close>

theorem rollupConfig_latches:
  assumes "rollup_cache w (name p) = None"
  shows "fst (rollupConfig p o1 w) = new_config (root w) p o1 \<and>
         (\<forall>w2 o2. rollup_cache w2 (name p) = rollup_cache (snd (rollupConfig p o1 w)) (name p) \<longrightarrow>
            rollupConfig p o2 w2 = (new_config (root w) p o1, w2)) \<and>
         fst (rollupConfig_later p o1 w) = new_config_later p o1 \<and>
         (\<forall>w2 o2. rollup_cache w2 (name p) = rollup_cache (snd (rollupConfig_later p o1 w)) (name p) \<longrightarrow>
            rollupConfig_later p o2 w2 = (new_config_later p o1, w2))"
  using assms by (simp add: rollupConfig_def rollupConfig_later_def Let_def)

text \<open>
  After a first call with the options of \<^verbatim>\<open>watch\<close> (no esm bundle), a call that asks for
  the esm bundle still gets the configuration with the cjs output alone.
\<close>

theorem rollupConfig_latches_witness:
  "List.map format
     (output' (fst (rollupConfig lr_pkg build_all
        (snd (rollupConfig lr_pkg watch_options (lr_world 10)))))) = [''cjs''] \<and>
   List.map format
     (output' (fst (rollupConfig_later lr_pkg build_all
        (snd (rollupConfig_later lr_pkg watch_options (lr_world 10)))))) = [''cjs'']"
proof -
  have e: "rollup_cache (lr_world 10) (name lr_pkg) = None"
    by (simp add: lr_world_def)
  have "rollupConfig lr_pkg build_all (snd (rollupConfig lr_pkg watch_options (lr_world 10))) =
      (new_config (root (lr_world 10)) lr_pkg watch_options,
       snd (rollupConfig lr_pkg watch_options (lr_world 10)))"
    using rollupConfig_latches [OF e, of watch_options] by blast
  moreover have "rollupConfig_later lr_pkg build_all
        (snd (rollupConfig_later lr_pkg watch_options (lr_world 10))) =
      (new_config_later lr_pkg watch_options,
       snd (rollupConfig_later lr_pkg watch_options (lr_world 10)))"
    using rollupConfig_latches [OF e, of watch_options] by blast
  ultimately show ?thesis
    by (simp add: new_config_def cjs_output_def new_config_later_def watch_options_def)
qed

section \<open>Paths and file names\<close>










section \<open>The writes of a build\<close>

lemma writeFile_writes: "writes (writeFile q x w) = writes w @ [(q, x)]"
  by (simp add: writeFile_def)

lemma writeFile_lookup:
  "map_of (files (writeFile q x w)) p =
     (if p = q then Some \<lparr>content = x, mtime = now w\<rparr> else map_of (files w) p)"
  by (simp add: writeFile_def update_conv')

lemma extends_refl: "extends w [] w"
  by (simp add: extends_def)

lemma extends_trans: "extends w ws w1 \<Longrightarrow> extends w1 ws' w2 \<Longrightarrow> extends w (ws @ ws') w2"
  by (simp add: extends_def image_Un)

lemma extends_writeFile: "extends w [(q, x)] (writeFile q x w)"
  by (simp add: extends_def writeFile_writes writeFile_lookup)




lemma maybeWriteFile_eq:
  "maybeWriteFile p data w =
     (Completed, if same_on_disk w p data then w else writeFile p data w)"
  by (auto simp: maybeWriteFile_def same_on_disk_def statSync_def readFileSync_def error_code_def
      split: option.splits)


lemma write_artifact_completes:
  assumes "\<not> artifact_fails out f"
  shows "\<exists>w1. write_artifact out d f w = (Completed, w1) \<and>
           extends w (main_write out d f w @ map_write d f) w1"
proof -
  let ?p = "path_join [d, fileName f]"
  let ?first = "(if \<not> is_declaration (fileName f)
             then write_value ?p (artifact_code f) w
             else if format out = ''cjs''
             then (case artifact_code f of
                     None \<Rightarrow> (Threw (TypeError ''Cannot read properties of undefined''), w)
                   | Some text \<Rightarrow>
                       maybeWriteFile ?p (declaration_text (fileName f) text) w)
             else (Completed, w))"
  have "\<exists>w0. ?first = (Completed, w0) \<and> extends w (main_write out d f w) w0"
  proof (cases "artifact_code f")
    case None
    with assms show ?thesis
      by (simp add: artifact_fails_def main_write_def extends_refl)
  next
    case (Some c)
    show ?thesis
    proof (cases "is_declaration (fileName f)")
      case False
      with Some show ?thesis
        by (simp add: write_value_def main_write_def extends_writeFile)
    next
      case True
      with Some show ?thesis
        by (simp add: maybeWriteFile_eq main_write_def extends_writeFile extends_refl)
    qed
  qed
  then obtain w0 where first: "?first = (Completed, w0)"
    and e0: "extends w (main_write out d f w) w0"
    by blast
  show ?thesis
  proof (cases "map' f")
    case None
    with first e0 show ?thesis
      by (simp add: write_artifact_def Let_def map_write_def)
  next
    case (Some m)
    have "extends w0 [(path_join [d, fileName f @ ''.map''], m)]
        (writeFile (path_join [d, fileName f @ ''.map'']) m w0)"
      by (rule extends_writeFile)
    with e0 have "extends w (main_write out d f w @ [(path_join [d, fileName f @ ''.map''], m)])
        (writeFile (path_join [d, fileName f @ ''.map'']) m w0)"
      by (rule extends_trans)
    with first Some show ?thesis
      by (simp add: write_artifact_def Let_def map_write_def)
  qed
qed




lemma path_join_two: "path_join [d, n] = d @ ''/'' @ n"
  by simp









lemma write_artifacts_complete:
  "\<forall>f\<in>set fs. \<not> artifact_fails out f \<Longrightarrow> fst (write_artifacts out d fs w) = Completed"
proof (induction fs arbitrary: w)
  case Nil
  then show ?case by simp
next
  case (Cons f fs)
  then have "\<not> artifact_fails out f" by simp
  from write_artifact_completes [OF this, of d w] obtain w1 where
    "write_artifact out d f w = (Completed, w1)" by blast
  with Cons show ?case by simp
qed

lemma write_outputs_complete:
  "\<forall>out\<in>set outs. \<exists>fs. generate b out = Inr fs \<and> (\<forall>f\<in>set fs. \<not> artifact_fails out f) \<Longrightarrow>
   fst (write_outputs b outs w) = Completed"
proof (induction outs arbitrary: w)
  case Nil
  then show ?case by simp
next
  case (Cons out outs)
  then obtain fs where g: "generate b out = Inr fs" "\<forall>f\<in>set fs. \<not> artifact_fails out f"
    by auto
  let ?d = "dirname (file' out)"
  obtain r w1 where e: "write_artifacts out ?d fs (mkdir ?d w) = (r, w1)" by (meson surj_pair)
  with write_artifacts_complete [OF g(2), of ?d "mkdir ?d w"] have "r = Completed" by simp
  with e g(1) Cons show ?case by (simp add: Let_def)
qed


section \<open>Declaration files are written only when they change\<close>












section \<open>Releases\<close>

lemma readFileSync_error: "readFileSync w f = Inl e \<Longrightarrow> e = SystemError ''ENOENT'' f"
  by (auto simp: readFileSync_def split: option.splits)

lemma run_result:
  "run exec cmd args wd w = (r, w1) \<Longrightarrow>
   w1 = w\<lparr>commands := commands w @ [(cmd, args, wd)]\<rparr> \<and>
   (case r of Inl e \<Rightarrow> e = CommandFailed cmd args | Inr out \<Rightarrow> exec cmd args wd w = Some out)"
  by (auto simp: run_def Let_def split: option.splits)

lemma changelog_result:
  assumes "changelog exec p since extra w = (r, w1)"
  shows "w1 = w\<lparr>commands := commands w @ [git_log p since]\<rparr> \<and>
         (\<forall>e. r = Inl e \<longrightarrow> (\<exists>c a. e = CommandFailed c a))"
proof -
  obtain r0 w0 where s: "run exec ''git''
      [''log'', ''--format=%B'', ''--reverse'', string_of_value since @ ''..main''] (dir p) w = (r0, w0)"
    by (cases "run exec ''git''
      [''log'', ''--format=%B'', ''--reverse'', string_of_value since @ ''..main''] (dir p) w")
  from run_result [OF s] assms s show ?thesis
    by (cases r0) (auto simp: changelog_def git_log_def Let_def)
qed

lemma run_all_error: "run_all exec wd cs w = (Threw e, w1) \<Longrightarrow> \<exists>c a. e = CommandFailed c a"
proof (induction cs arbitrary: w)
  case Nil
  then show ?case by simp
next
  case (Cons args cs)
  obtain r0 w0 where s: "run exec ''git'' args wd w = (r0, w0)"
    by (cases "run exec ''git'' args wd w")
  from run_result [OF s] Cons s show ?case
    by (cases r0) auto
qed

lemma doRelease_error:
  assumes "doRelease exec p chs v w = (Threw e, w1)"
  shows "(\<exists>c a. e = CommandFailed c a) \<or> (\<exists>c f. e = SystemError c f)"
proof -
  obtain r0 w0 where s: "setModuleVersion p v w = (r0, w0)"
    by (cases "setModuleVersion p v w")
  show ?thesis
  proof (cases r0)
    case Completed
    obtain h b where n: "releaseNotes chs v w0 = (h, b)"
      by (cases "releaseNotes chs v w0")
    show ?thesis
    proof (cases "readFileSync w0 (path_join [dir p, ''CHANGELOG.md''])")
      case (Inl e')
      with assms s Completed n have "e = e'" by (simp add: doRelease_def Let_def)
      with Inl show ?thesis by (auto dest: readFileSync_error)
    next
      case (Inr old)
      with assms s Completed n have "\<exists>cs w'. run_all exec (dir p) cs w' = (Threw e, w1)"
        by (auto simp: doRelease_def Let_def simp del: run_all.simps)
      then show ?thesis by (blast dest: run_all_error)
    qed
  next
    case (Threw e')
    with assms s have "e = e'" by (simp add: doRelease_def)
    with s Threw show ?thesis
      by (auto simp: setModuleVersion_def Let_def split: sum.splits dest: readFileSync_error)
  next
    case (Exited n)
    with assms s show ?thesis by (simp add: doRelease_def)
  qed
qed

lemma version_error:
  "version parse p w = Inl e \<Longrightarrow> (\<exists>c f. e = SystemError c f) \<or> (\<exists>f. e = SyntaxError f)"
  by (auto simp: version_def Let_def split: sum.splits manifest.splits)

lemma release_args_later:
  "release_args l1 all i as acc = Inr x \<Longrightarrow> release_args l2 all i as acc = Inr x"
  by (induction l1 all i as acc rule: release_args.induct)
     (auto split: if_splits list.splits)

lemma release_with_explicit:
  assumes "release_args later args 0 args (None, []) = Inr (Some V, message)" and "V \<noteq> []"
  shows "fst (release_with later bump names exec parse pkgName args w) \<noteq>
           Threw (Error ''No new release notes!'') \<and>
         (\<forall>p cv chs w1.
            names (root w) pkgName = Some p \<and> version parse p w = Inr cv \<and>
            changelog exec p cv (Some message) w = (Inr chs, w1) \<longrightarrow>
            release_with later bump names exec parse pkgName args w =
              doRelease exec p chs V
                (w1\<lparr>console := console w1 @ [Log (''Creating '' @ pkgName @ '' '' @ V)]\<rparr>))"
proof -
  have nv: "\<not> no_version (Some V)"
    using assms(2) by (simp add: no_version_def)
  have second: "release_with later bump names exec parse pkgName args w =
      doRelease exec p chs V
        (w1\<lparr>console := console w1 @ [Log (''Creating '' @ pkgName @ '' '' @ V)]\<rparr>)"
    if "names (root w) pkgName = Some p" "version parse p w = Inr cv"
      "changelog exec p cv (Some message) w = (Inr chs, w1)" for p cv chs w1
    using that assms(1) nv by (simp add: release_with_def)
  have first: "fst (release_with later bump names exec parse pkgName args w) \<noteq>
      Threw (Error ''No new release notes!'')"
  proof (cases "names (root w) pkgName")
    case None
    then show ?thesis by (simp add: release_with_def error_def)
  next
    case (Some p)
    show ?thesis
    proof (cases "version parse p w")
      case (Inl e)
      with Some assms(1) version_error [OF Inl] show ?thesis
        by (auto simp: release_with_def)
    next
      case (Inr cv)
      obtain r w1 where c: "changelog exec p cv (Some message) w = (r, w1)"
        by (cases "changelog exec p cv (Some message) w")
      show ?thesis
      proof (cases r)
        case (Inl e)
        with changelog_result [OF c] Some Inr c assms(1) show ?thesis
          by (auto simp: release_with_def)
      next
        case chs: (Inr chs)
        let ?w = "w1\<lparr>console := console w1 @ [Log (''Creating '' @ pkgName @ '' '' @ V)]\<rparr>"
        have eq: "release_with later bump names exec parse pkgName args w = doRelease exec p chs V ?w"
          using second Some Inr c chs by simp
        obtain r2 w2 where d: "doRelease exec p chs V ?w = (r2, w2)"
          by (cases "doRelease exec p chs V ?w")
        show ?thesis
        proof (cases r2)
          case (Threw e)
          with d doRelease_error [of exec p chs V ?w e w2] eq show ?thesis by auto
        qed (use d eq in simp_all)
      qed
    qed
  qed
  from first second show ?thesis by blast
qed

lemma release_with_no_notes:
  assumes "names (root w) pkgName = Some p"
    and "release_args later args 0 args (None, []) = Inr (v, message)"
    and "no_version v"
    and "version parse p w = Inr (Some cv)"
    and "changelog exec p (Some cv) (Some message) w = (Inr no_changes, w1)"
    and "bump cv no_changes = Inl (Error ''No new release notes!'')"
  shows "release_with later bump names exec parse pkgName args w =
           (Threw (Error ''No new release notes!''), w1)"
  using assms by (simp add: release_with_def)

lemma bump_nothing:
  "bumpVersion cv no_changes = Inl (Error ''No new release notes!'')"
  "bumpVersion_later cv no_changes = Inl (Error ''No new release notes!'')"
  by (simp_all add: bumpVersion_def bumpVersion_later_def no_changes_def Let_def)

lemma no_changes_iff:
  "chs = no_changes \<longleftrightarrow> fix' chs = [] \<and> feature chs = [] \<and> breaking chs = []"
  by (cases chs) (auto simp: no_changes_def)

lemma packageNames_later_extends:
  "packageNames r n = Some p \<Longrightarrow> packageNames_later r n = Some p"
  unfolding packageNames_def packages_def packageNames_later_def loadPackages_def Let_def
  by (simp add: Pkg_def no_options_def split: if_splits)

lemma packageNames_later_highlight:
  "packageNames_later ''/lezer'' ''highlight'' = Some highlight_pkg"
  "packageNames ''/lezer'' ''highlight'' = None"
  by (simp_all add: packageNames_def packages_def packageNames_later_def loadPackages_def
      highlight_pkg_def Pkg_def Let_def)

lemma packageNames_lr: "packageNames ''/lezer'' ''lr'' = Some lr_pkg"
  by (simp add: packageNames_def packages_def Pkg_def lr_pkg_def)

lemma lr_manifest:
  "readFileSync ((lr_world t)\<lparr>commands := c, console := l\<rparr>) ''/lezer/lr/package.json'' =
     Inr sample_manifest"
  "readFileSync (lr_world t) ''/lezer/lr/package.json'' = Inr sample_manifest"
  by (simp_all add: readFileSync_def lr_world_def)

lemma lr_version: "version sample_parser lr_pkg (lr_world t) = Inr (Some ''0.13.0'')"
  by (simp add: version_def lr_pkg_def Pkg_def lr_manifest sample_parser_def)

lemma lr_changelog:
  "changelog quiet_git lr_pkg (Some ''0.13.0'') (Some []) (lr_world t) =
     (Inr no_changes, (lr_world t)\<lparr>commands := [git_log lr_pkg (Some ''0.13.0'')]\<rparr>)"
  by (simp add: changelog_def run_def quiet_git_def notes_from.simps note_at_def git_log_def
      string_of_value_def lr_world_def)

lemma lr_doRelease:
  "doRelease quiet_git lr_pkg no_changes ''1.0.0''
     ((lr_world 10)\<lparr>commands := [git_log lr_pkg (Some ''0.13.0'')],
        console := [Log ''Creating lr 1.0.0'']\<rparr>) = (r, w1) \<Longrightarrow>
   r = Completed \<and>
   List.map fst (writes w1) = [''/lezer/lr/package.json'', ''/lezer/lr/CHANGELOG.md''] \<and>
   List.map (hd \<circ> fst \<circ> snd) (commands w1) = [''log'', ''add'', ''add'', ''commit'', ''tag'']"
  by (auto simp: doRelease_def setModuleVersion_def lr_pkg_def Pkg_def Let_def readFileSync_def
      writeFile_def releaseNotes_def run_def quiet_git_def lr_world_def git_log_def
      update_conv' split: prod.splits)

lemma highlight_version:
  "version sample_parser highlight_pkg highlight_world = Inr (Some ''0.13.0'')"
  by (simp add: version_def highlight_pkg_def Pkg_def readFileSync_def highlight_world_def
      sample_parser_def)

lemma highlight_changelog:
  "changelog quiet_git highlight_pkg (Some ''0.13.0'') (Some []) highlight_world =
     (Inr no_changes, highlight_world\<lparr>commands := [git_log highlight_pkg (Some ''0.13.0'')]\<rparr>)"
  by (simp add: changelog_def run_def quiet_git_def notes_from.simps note_at_def git_log_def
      string_of_value_def highlight_world_def)

lemma highlight_doRelease:
  "doRelease quiet_git highlight_pkg no_changes ''1.0.0''
     (highlight_world\<lparr>commands := [git_log highlight_pkg (Some ''0.13.0'')],
        console := [Log ''Creating highlight 1.0.0'']\<rparr>) = (r, w1) \<Longrightarrow>
   r = Completed \<and>
   List.map fst (writes w1) =
     [''/lezer/highlight/package.json'', ''/lezer/highlight/CHANGELOG.md''] \<and>
   List.map (hd \<circ> fst \<circ> snd) (commands w1) = [''log'', ''add'', ''add'', ''commit'', ''tag'']"
  by (auto simp: doRelease_def setModuleVersion_def highlight_pkg_def Pkg_def Let_def
      readFileSync_def writeFile_def releaseNotes_def run_def quiet_git_def highlight_world_def
      git_log_def update_conv' split: prod.splits)

text \<open>
  C6: for a registered package, arguments that the loop accepts and that give no
  version (none, or an empty one), a manifest with a version and a \<^verbatim>\<open>git log\<close> that
  succeeds, when the change log has no breaking, feature or fix entry, \<open>release\<close> throws
  \<^verbatim>\<open>No new release notes!\<close>, in both revisions. The state it leaves differs from the one
  before only by the record of the \<^verbatim>\<open>git log\<close> call: no file is written, nothing is
  printed, and no other command is run.
\<close>

theorem release_without_notes:
  assumes "packageNames (root w) pkgName = Some p"
    and "release_args False args 0 args (None, []) = Inr (v, message)"
    and "no_version v"
    and "version parse p w = Inr (Some cv)"
    and "changelog exec p (Some cv) (Some message) w = (Inr chs, w1)"
    and "fix' chs = [] \<and> feature chs = [] \<and> breaking chs = []"
  shows "release exec parse pkgName args w = (Threw (Error ''No new release notes!''), w1) \<and>
         release_later exec parse pkgName args w = (Threw (Error ''No new release notes!''), w1) \<and>
         w1 = w\<lparr>commands := commands w @ [git_log p (Some cv)]\<rparr>"
proof -
  from assms(6) have n: "chs = no_changes" by (simp add: no_changes_iff)
  from assms(2) have l: "release_args True args 0 args (None, []) = Inr (v, message)"
    by (rule release_args_later)
  show ?thesis
    using release_with_no_notes [where bump = bumpVersion and names = packageNames,
        OF assms(1,2,3,4) assms(5) [unfolded n] bump_nothing(1)]
      release_with_no_notes [where bump = bumpVersion_later and names = packageNames_later,
        OF packageNames_later_extends [OF assms(1)] l assms(3,4) assms(5) [unfolded n]
          bump_nothing(2)]
      changelog_result [OF assms(5)]
    by (simp add: release_def release_later_def)
qed

theorem release_without_notes_witness:
  "release quiet_git sample_parser ''lr'' [] (lr_world 10) =
     (Threw (Error ''No new release notes!''),
      (lr_world 10)\<lparr>commands := [git_log lr_pkg (Some ''0.13.0'')]\<rparr>)"
proof -
  have r: "root (lr_world 10) = ''/lezer''" by (simp add: lr_world_def)
  have a: "release_args False [] 0 [] (None, []) = Inr (None, [])" by simp
  have n: "no_version None" by (simp add: no_version_def)
  have c: "fix' no_changes = [] \<and> feature no_changes = [] \<and> breaking no_changes = []"
    by (simp add: no_changes_def)
  show ?thesis
    using release_without_notes [OF packageNames_lr [folded r] a n lr_version lr_changelog c]
    by simp
qed

text \<open>
  C9, for a version that is not the empty string: with arguments that the loop accepts
  and that give the version \<open>V\<close>, \<open>release\<close> never throws \<^verbatim>\<open>No new release notes!\<close>,
  whatever the package, the manifest and the history; and when the package is registered,
  the manifest is read and \<^verbatim>\<open>git log\<close> succeeds, \<open>release\<close> is \<open>doRelease\<close> with the
  changes found (empty or not) and \<open>V\<close>, after the line \<^verbatim>\<open>Creating ...\<close>. Both revisions,
  each with its own registry.
\<close>

theorem release_explicit_version:
  assumes "release_args False args 0 args (None, []) = Inr (Some V, message)" and "V \<noteq> []"
  shows "fst (release exec parse pkgName args w) \<noteq> Threw (Error ''No new release notes!'') \<and>
         fst (release_later exec parse pkgName args w) \<noteq> Threw (Error ''No new release notes!'') \<and>
         (\<forall>p cv chs w1.
            packageNames (root w) pkgName = Some p \<and> version parse p w = Inr cv \<and>
            changelog exec p cv (Some message) w = (Inr chs, w1) \<longrightarrow>
            release exec parse pkgName args w =
              doRelease exec p chs V
                (w1\<lparr>console := console w1 @ [Log (''Creating '' @ pkgName @ '' '' @ V)]\<rparr>)) \<and>
         (\<forall>p cv chs w1.
            packageNames_later (root w) pkgName = Some p \<and> version parse p w = Inr cv \<and>
            changelog exec p cv (Some message) w = (Inr chs, w1) \<longrightarrow>
            release_later exec parse pkgName args w =
              doRelease exec p chs V
                (w1\<lparr>console := console w1 @ [Log (''Creating '' @ pkgName @ '' '' @ V)]\<rparr>))"
proof -
  from assms(1) have l: "release_args True args 0 args (None, []) = Inr (Some V, message)"
    by (rule release_args_later)
  show ?thesis
    using release_with_explicit [OF assms, of bumpVersion packageNames exec parse pkgName w]
      release_with_explicit [OF l assms(2),
        of bumpVersion_later packageNames_later exec parse pkgName w]
    unfolding release_def release_later_def by blast
qed

text \<open>
  In the sample state, whose history has no notes, the release of \<open>lr\<close> with
  \<^verbatim>\<open>--version 1.0.0\<close> completes: it writes the manifest and the change log and runs
  \<^verbatim>\<open>git\<close> with \<^verbatim>\<open>log\<close>, \<^verbatim>\<open>add\<close>, \<^verbatim>\<open>add\<close>, \<^verbatim>\<open>commit\<close> and \<^verbatim>\<open>tag\<close>. So does, in the later
  revision, the release of \<open>highlight\<close>, a package that only the later registry has.
\<close>

theorem release_explicit_version_witness:
  "fst (release quiet_git sample_parser ''lr'' [''--version'', ''1.0.0''] (lr_world 10)) = Completed \<and>
   List.map fst (writes (snd (release quiet_git sample_parser ''lr'' [''--version'', ''1.0.0'']
      (lr_world 10)))) = [''/lezer/lr/package.json'', ''/lezer/lr/CHANGELOG.md''] \<and>
   List.map (hd \<circ> fst \<circ> snd)
     (commands (snd (release quiet_git sample_parser ''lr'' [''--version'', ''1.0.0'']
        (lr_world 10)))) = [''log'', ''add'', ''add'', ''commit'', ''tag''] \<and>
   fst (release_later quiet_git sample_parser ''highlight'' [''--version'', ''1.0.0'']
      highlight_world) = Completed \<and>
   List.map fst (writes (snd (release_later quiet_git sample_parser ''highlight''
      [''--version'', ''1.0.0''] highlight_world))) =
     [''/lezer/highlight/package.json'', ''/lezer/highlight/CHANGELOG.md''] \<and>
   List.map (hd \<circ> fst \<circ> snd)
     (commands (snd (release_later quiet_git sample_parser ''highlight''
        [''--version'', ''1.0.0''] highlight_world))) =
     [''log'', ''add'', ''add'', ''commit'', ''tag'']"
proof -
  let ?args = "[''--version'', ''1.0.0'']"
  let ?w1 = "(lr_world 10)\<lparr>commands := [git_log lr_pkg (Some ''0.13.0'')]\<rparr>"
  let ?h1 = "highlight_world\<lparr>commands := [git_log highlight_pkg (Some ''0.13.0'')]\<rparr>"
  have r: "root (lr_world 10) = ''/lezer''" by (simp add: lr_world_def)
  have rh: "root highlight_world = ''/lezer''" by (simp add: highlight_world_def)
  have a: "release_args False ?args 0 ?args (None, []) = Inr (Some ''1.0.0'', [])"
    by simp
  have v: "''1.0.0'' \<noteq> []" by simp
  have "release quiet_git sample_parser ''lr'' ?args (lr_world 10) =
      doRelease quiet_git lr_pkg no_changes ''1.0.0''
        (?w1\<lparr>console := console ?w1 @ [Log (''Creating '' @ ''lr'' @ '' '' @ ''1.0.0'')]\<rparr>)"
    using release_explicit_version [OF a v, of quiet_git sample_parser "''lr''" "lr_world 10"]
      packageNames_lr [folded r] lr_version lr_changelog
    by blast
  also have "\<dots> = doRelease quiet_git lr_pkg no_changes ''1.0.0''
      ((lr_world 10)\<lparr>commands := [git_log lr_pkg (Some ''0.13.0'')],
         console := [Log ''Creating lr 1.0.0'']\<rparr>)"
    by (simp add: lr_world_def)
  finally have e: "release quiet_git sample_parser ''lr'' ?args (lr_world 10) =
      doRelease quiet_git lr_pkg no_changes ''1.0.0''
      ((lr_world 10)\<lparr>commands := [git_log lr_pkg (Some ''0.13.0'')],
         console := [Log ''Creating lr 1.0.0'']\<rparr>)" .
  have "release_later quiet_git sample_parser ''highlight'' ?args highlight_world =
      doRelease quiet_git highlight_pkg no_changes ''1.0.0''
        (?h1\<lparr>console := console ?h1 @
           [Log (''Creating '' @ ''highlight'' @ '' '' @ ''1.0.0'')]\<rparr>)"
    using release_explicit_version [OF a v, of quiet_git sample_parser "''highlight''"
        highlight_world]
      packageNames_later_highlight(1) [folded rh] highlight_version highlight_changelog
    by blast
  also have "\<dots> = doRelease quiet_git highlight_pkg no_changes ''1.0.0''
      (highlight_world\<lparr>commands := [git_log highlight_pkg (Some ''0.13.0'')],
         console := [Log ''Creating highlight 1.0.0'']\<rparr>)"
    by (simp add: highlight_world_def)
  finally have h: "release_later quiet_git sample_parser ''highlight'' ?args highlight_world =
      doRelease quiet_git highlight_pkg no_changes ''1.0.0''
      (highlight_world\<lparr>commands := [git_log highlight_pkg (Some ''0.13.0'')],
         console := [Log ''Creating highlight 1.0.0'']\<rparr>)" .
  show ?thesis
    unfolding e h
    using lr_doRelease [OF prod.collapse [symmetric]]
      highlight_doRelease [OF prod.collapse [symmetric]]
    by blast
qed

text \<open>
  With \<^verbatim>\<open>--version ""\<close> the version given is the empty string, \<^verbatim>\<open>!newVersion\<close> holds, the
  bump is computed, and on a history without notes \<open>release\<close> throws
  \<^verbatim>\<open>No new release notes!\<close>.
\<close>

theorem release_empty_version_counterexample:
  "fst (release quiet_git sample_parser ''lr'' [''--version'', []] (lr_world 10)) =
     Threw (Error ''No new release notes!'')"
proof -
  have r: "root (lr_world 10) = ''/lezer''" by (simp add: lr_world_def)
  have a: "release_args False [''--version'', []] 0 [''--version'', []] (None, []) =
      Inr (Some [], [])"
    by simp
  have n: "no_version (Some [])" by (simp add: no_version_def)
  show ?thesis
    using release_with_no_notes [where bump = bumpVersion and names = packageNames,
        OF packageNames_lr [folded r] a n lr_version lr_changelog bump_nothing(1)]
    by (simp add: release_def)
qed

section \<open>What a build leaves alone\<close>

lemma stays_step:
  assumes "stays w (r0, w0)" and "\<And>v. stays v (f v)"
  shows "stays w (case (r0, w0) of (Completed, w1) \<Rightarrow> f w1 | r \<Rightarrow> r)"
  using assms(1) assms(2) [of w0] by (cases r0) (auto simp: stays_def)

lemma stays_write_value: "stays w (write_value q v w)"
  by (simp add: stays_def write_value_def writeFile_def split: option.splits)

lemma stays_maybeWriteFile: "stays w (maybeWriteFile q d w)"
  by (simp add: stays_def maybeWriteFile_eq writeFile_def)

lemma stays_write_artifact: "stays w (write_artifact out d f w)"
proof -
  have m: "stays v (case map' f of None \<Rightarrow> (Completed, v)
      | Some m \<Rightarrow> (Completed, writeFile (path_join [d, fileName f @ ''.map'']) m v))" for v
    by (simp add: stays_def writeFile_def split: option.splits)
  have f: "stays w (if \<not> is_declaration (fileName f)
             then write_value (path_join [d, fileName f]) (artifact_code f) w
             else if format out = ''cjs''
             then (case artifact_code f of
                     None \<Rightarrow> (Threw (TypeError ''Cannot read properties of undefined''), w)
                   | Some text \<Rightarrow>
                       maybeWriteFile (path_join [d, fileName f])
                         (declaration_text (fileName f) text) w)
             else (Completed, w))"
    using stays_write_value stays_maybeWriteFile
    by (auto simp: stays_def split: option.splits)
  obtain r0 w0 where e: "(if \<not> is_declaration (fileName f)
             then write_value (path_join [d, fileName f]) (artifact_code f) w
             else if format out = ''cjs''
             then (case artifact_code f of
                     None \<Rightarrow> (Threw (TypeError ''Cannot read properties of undefined''), w)
                   | Some text \<Rightarrow>
                       maybeWriteFile (path_join [d, fileName f])
                         (declaration_text (fileName f) text) w)
             else (Completed, w)) = (r0, w0)"
    by (meson surj_pair)
  show ?thesis
    unfolding write_artifact_def Let_def e
    using stays_step [OF f [unfolded e], of "\<lambda>v. (case map' f of None \<Rightarrow> (Completed, v)
      | Some m \<Rightarrow> (Completed, writeFile (path_join [d, fileName f @ ''.map'']) m v))"] m
    by simp
qed

lemma stays_write_artifacts: "stays w (write_artifacts out d fs w)"
proof (induction fs arbitrary: w)
  case Nil
  then show ?case by (simp add: stays_def)
next
  case (Cons f fs)
  obtain r0 w0 where e: "write_artifact out d f w = (r0, w0)" by (meson surj_pair)
  have "stays w (r0, w0)" using stays_write_artifact [of w out d f] e by simp
  from stays_step [OF this, of "write_artifacts out d fs"] Cons.IH show ?case
    by (simp add: e)
qed

lemma stays_mkdir: "stays (mkdir d w) r \<Longrightarrow> stays w r"
  by (simp add: stays_def mkdir_def)

lemma stays_write_outputs: "stays w (write_outputs b outs w)"
proof (induction outs arbitrary: w)
  case Nil
  then show ?case by (simp add: stays_def)
next
  case (Cons out outs)
  show ?case
  proof (cases "generate b out")
    case (Inl e)
    then show ?thesis by (simp add: stays_def)
  next
    case (Inr fs)
    let ?d = "dirname (file' out)"
    obtain r0 w0 where e: "write_artifacts out ?d fs (mkdir ?d w) = (r0, w0)" by (meson surj_pair)
    have "stays w (r0, w0)"
      using stays_write_artifacts [of "mkdir ?d w" out ?d fs] e by (simp add: stays_mkdir)
    from stays_step [OF this, of "write_outputs b outs"] Cons.IH show ?thesis
      by (simp add: Inr Let_def e)
  qed
qed

lemma stays_runRollup: "stays w (runRollup rollup c w)"
proof (cases "rollup c (w\<lparr>bundled := bundled w @ [c]\<rparr>)")
  case (Inl e)
  then show ?thesis by (simp add: runRollup_def Let_def stays_def)
next
  case (Inr b)
  then show ?thesis
    using stays_write_outputs [of "w\<lparr>bundled := bundled w @ [c], now := now w + duration b\<rparr>" b "output' c"]
    by (simp add: runRollup_def Let_def stays_def)
qed

lemma stays_run_build: "stays w (run_build rollup p opts w)"
proof -
  let ?w1 = "w\<lparr>console := console w @ [Log (''Building '' @ name p @ ''...'')]\<rparr>"
  obtain c w2 where rc: "rollupConfig p opts ?w1 = (c, w2)" by (meson surj_pair)
  then have w2: "root w2 = root w" "watches w2 = watches w" "commands w2 = commands w"
    "today w2 = today w"
    by (auto simp: rollupConfig_def Let_def split: option.splits)
  obtain r w3 where rr: "runRollup rollup c w2 = (r, w3)" by (meson surj_pair)
  with stays_runRollup [of w2 rollup c] w2 have "stays w (r, w3)" by (simp add: stays_def)
  with rc rr show ?thesis
    by (cases r) (auto simp: run_build_def Let_def stays_def)
qed

lemma stays_rebuild: "stays w (rebuild rollup p opts w)"
proof -
  have 1: "stays w (run_build rollup p opts w)" by (rule stays_run_build)
  show ?thesis
  proof (cases "always opts \<or> oldest_output_time w p opts < 0")
    case True
    with 1 show ?thesis by (simp add: rebuild_unfold)
  next
    case False
    obtain r w1 where i: "inputFiles p w = (r, w1)" by (meson surj_pair)
    from inputFiles_frame [OF i] have fr: "w1 = w\<lparr>dependencies_cache := dependencies_cache w1\<rparr>" .
    have same: "root w1 = root w" "watches w1 = watches w" "commands w1 = commands w"
      "today w1 = today w"
      by (subst fr, simp)+
    have 2: "stays w (run_build rollup p opts w1)"
      using stays_run_build [of w1 rollup p opts] same by (simp add: stays_def)
    show ?thesis
      using False i 2 same by (cases r) (auto simp: rebuild_unfold stays_def)
  qed
qed

lemma stays_baseline: "stays w (baseline rollup ps w)"
proof (induction ps arbitrary: w)
  case Nil
  then show ?case by (simp add: stays_def)
next
  case (Cons p ps)
  obtain r w1 where e: "rebuild rollup p watch_options w = (r, w1)" by (meson surj_pair)
  with stays_rebuild [of w rollup p watch_options] have s: "stays w (r, w1)" by simp
  show ?case
  proof (cases r)
    case Completed
    with e s Cons.IH [of w1] show ?thesis by (simp add: stays_def)
  next
    case (Threw x)
    with e s Cons.IH [of "w1\<lparr>console := console w1 @ [Log_error x]\<rparr>"] show ?thesis
      by (simp add: stays_def)
  next
    case (Exited n)
    with s show ?thesis by (simp add: stays_def)
  qed
qed

lemma baseline_completes: "fst (baseline rollup ps w) = Completed"
proof (induction ps arbitrary: w)
  case Nil
  then show ?case by simp
next
  case (Cons p ps)
  obtain r w1 where e: "rebuild rollup p watch_options w = (r, w1)" by (meson surj_pair)
  with stays_rebuild [of w rollup p watch_options] have s: "\<forall>n. r \<noteq> Exited n"
    by (simp add: stays_def)
  with e Cons.IH show ?case by (cases r) auto
qed

lemma target_unbound: "resolve w ''target'' = Inl (ReferenceError ''target is not defined'')"
  by (simp add: resolve_def declared_names_def)

lemma stays_build_named: "stays w (build_named rollup force ns w)"
proof (induction ns arbitrary: w)
  case Nil
  then show ?case by (simp add: stays_def)
next
  case (Cons k ks)
  show ?case
  proof (cases "find (\<lambda>t. name t = k) (packages (root w))")
    case None
    then show ?thesis by (simp add: stays_def)
  next
    case (Some found)
    obtain r w1 where e: "rebuild rollup found \<lparr>esm = True, always = force\<rparr> w = (r, w1)"
      by (meson surj_pair)
    with stays_rebuild [of w rollup found "\<lparr>esm = True, always = force\<rparr>"]
    have "stays w (r, w1)" by simp
    from stays_step [OF this, of "build_named rollup force ks"] Cons.IH Some e show ?thesis
      by simp
  qed
qed

section \<open>The watch command\<close>

text \<open>
  C7, as the code runs: after the baseline, \<open>watch\<close> evaluates the identifier
  \<^verbatim>\<open>target\<close>, which nothing declares, so for every bundler and every state it throws the
  reference error before the watcher is constructed. No watch is registered, the line
  \<^verbatim>\<open>Watching...\<close> is not printed, and \<open>start\<close> ends the process with status 1.
\<close>

theorem watch_throws:
  "watch rollup w =
     (Threw (ReferenceError ''target is not defined''),
      snd (baseline rollup (packages (root w)) w)) \<and>
   watches (snd (watch rollup w)) = watches w \<and>
   fst (start rollup exec parse other (Some ''watch'') [] w) = Exited 1"
proof -
  obtain r w1 where b: "baseline rollup (packages (root w)) w = (r, w1)" by (meson surj_pair)
  with baseline_completes [of rollup "packages (root w)" w] have r: "r = Completed" by simp
  have 1: "watch rollup w = (Threw (ReferenceError ''target is not defined''), w1)"
    by (simp add: watch_def b r target_unbound)
  have 2: "watches w1 = watches w"
    using stays_baseline [of w rollup "packages (root w)"] b by (simp add: stays_def)
  have 3: "start_select (Some ''watch'') [] = Some (Own Watch)"
    by (simp add: start_select_def cmdFn_def own_commands_def string_of_value_def
        entry_length_def)
  show ?thesis
    by (simp add: 1 2 3 b start_def settle_def error_def)
qed

section \<open>Configuration errors\<close>

lemma build_named_append:
  "build_named rollup force (ks @ ns) w =
     (case build_named rollup force ks w of
        (Completed, w1) \<Rightarrow> build_named rollup force ns w1
      | r \<Rightarrow> r)"
proof (induction ks arbitrary: w)
  case Nil
  then show ?case by simp
next
  case (Cons k ks)
  show ?case
  proof (cases "find (\<lambda>t. name t = k) (packages (root w))")
    case None
    then show ?thesis by simp
  next
    case (Some found)
    obtain r w1 where e: "rebuild rollup found \<lparr>esm = True, always = force\<rparr> w = (r, w1)"
      by (meson surj_pair)
    with Some Cons.IH [of w1] show ?thesis by (cases r) simp_all
  qed
qed

lemma build_unknown:
  assumes "names_of args = ks @ u # rest"
    and "find (\<lambda>t. name t = u) (packages (root w)) = None"
  shows "build rollup args w =
     (case build_named rollup (''--force'' \<in> set args) ks w of
        (Completed, w1) \<Rightarrow> (Threw (Error (''Unknown package '' @ u)), w1)
      | r \<Rightarrow> r)"
proof -
  let ?f = "''--force'' \<in> set args"
  obtain r w1 where e: "build_named rollup ?f ks w = (r, w1)" by (meson surj_pair)
  with stays_build_named [of w rollup ?f ks] have "root w1 = root w" by (simp add: stays_def)
  with assms(2) have "build_named rollup ?f (u # rest) w1 =
      (Threw (Error (''Unknown package '' @ u)), w1)"
    by simp
  with e show ?thesis
    using assms(1) build_named_append [of rollup ?f ks "u # rest" w]
    by (cases r) (simp_all add: build_def Let_def)
qed

lemma select_build: "start_select (Some ''build'') args = Some (Own Build)"
  by (simp add: start_select_def cmdFn_def own_commands_def string_of_value_def entry_length_def)

lemma select_release: "start_select (Some ''release'') (n # as) = Some (Own Release)"
  by (simp add: start_select_def cmdFn_def own_commands_def string_of_value_def entry_length_def)

lemma sample_bundler_completes: "fst (runRollup sample_bundler c w) = Completed"
proof -
  have "\<forall>out\<in>set (output' c). \<exists>fs. generate sample_bundle out = Inr fs \<and>
      (\<forall>f\<in>set fs. \<not> artifact_fails out f)"
    by (simp add: sample_bundle_def artifact_fails_def sample_code_def sample_declaration_def
        artifact_code_def)
  then show ?thesis
    by (simp add: runRollup_def Let_def sample_bundler_def write_outputs_complete)
qed

lemma sample_build_completes: "fst (run_build sample_bundler p opts w) = Completed"
proof -
  let ?w1 = "w\<lparr>console := console w @ [Log (''Building '' @ name p @ ''...'')]\<rparr>"
  obtain c w2 where rc: "rollupConfig p opts ?w1 = (c, w2)" by (meson surj_pair)
  obtain r w3 where rr: "runRollup sample_bundler c w2 = (r, w3)" by (meson surj_pair)
  with sample_bundler_completes [of c w2] have "r = Completed" by simp
  with rc rr show ?thesis by (simp add: run_build_def Let_def)
qed

lemma lr_rebuild_tie:
  "fst (rebuild sample_bundler lr_pkg build_all (lr_world 10)) = Completed \<and>
   bundled (snd (rebuild sample_bundler lr_pkg build_all (lr_world 10))) =
     [new_config ''/lezer'' lr_pkg build_all] \<and>
   root (snd (rebuild sample_bundler lr_pkg build_all (lr_world 10))) = ''/lezer''"
proof -
  let ?w1 = "(lr_world 10)\<lparr>dependencies_cache := [''lr'' \<mapsto> [common_pkg, common_pkg]]\<rparr>"
  have a: "\<not> always build_all" by (simp add: build_all_def)
  have ft: "file_time ?w1 ''/lezer/lr/src/index.ts'' = 10"
    by (simp add: file_time_def lr_world_def)
  have r: "rebuild sample_bundler lr_pkg build_all (lr_world 10) =
      run_build sample_bundler lr_pkg build_all ?w1"
    by (simp add: rebuild_unfold a lr_oldest inputFiles_lr ft)
  have c: "fst (rollupConfig lr_pkg build_all ?w1) = new_config ''/lezer'' lr_pkg build_all"
    by (simp add: rollupConfig_def lr_world_def Let_def)
  have e: "bundled ?w1 = []" "root ?w1 = ''/lezer''"
    by (simp_all add: lr_world_def)
  show ?thesis
    unfolding r
    using run_build_effects [of sample_bundler lr_pkg build_all ?w1]
      stays_run_build [of ?w1 sample_bundler lr_pkg build_all]
    by (simp add: sample_build_completes c e stays_def)
qed

lemma find_lr: "find (\<lambda>t. name t = ''lr'') (packages ''/lezer'') = Some lr_pkg"
  by (simp add: packages_def Pkg_def lr_pkg_def)

lemma find_nosuch: "find (\<lambda>t. name t = ''nosuch'') (packages r) = None"
  by (simp add: packages_def Pkg_def)

text \<open>
  C8, as the code has it. A command line that \<open>start\<close> does not accept (no entry for the
  command, or fewer arguments than the entry's function declares) prints the usage and
  ends the process with status 1, and nothing else changes; every command name that is
  neither in the table nor inherited by it is such. For \<^verbatim>\<open>build\<close>, the names are taken in
  order: at the first unknown name the command fails with status 1, after the names
  before it have gone through \<open>rebuild\<close>; when the first name is unknown, the error line
  is the only change. \<^verbatim>\<open>release\<close> with an unknown package name, or with an argument the
  loop does not accept, prints its complaint and ends with status 1 with no other change.
\<close>

theorem configuration_errors:
  "(start_select c args = None \<longrightarrow>
      start rollup exec parse other c args w =
        (Exited 1, w\<lparr>console := console w @ [Log usage]\<rparr>)) \<and>
   (string_of_value c \<notin> fst ` set own_commands \<union> set inherited_names \<longrightarrow>
      start_select c args = None) \<and>
   (\<forall>ks u rest.
      names_of args = ks @ u # rest \<and> find (\<lambda>t. name t = u) (packages (root w)) = None \<longrightarrow>
      start rollup exec parse other (Some ''build'') args w =
        (case build_named rollup (''--force'' \<in> set args) ks w of
           (Completed, w1) \<Rightarrow>
             (Exited 1,
              w1\<lparr>console := console w1 @ [Err_error (Error (''Unknown package '' @ u))]\<rparr>)
         | (Threw e, w1) \<Rightarrow> (Exited 1, w1\<lparr>console := console w1 @ [Err_error e]\<rparr>)
         | (Exited n, w1) \<Rightarrow> (Exited n, w1))) \<and>
   (\<forall>u rest.
      names_of args = u # rest \<and> find (\<lambda>t. name t = u) (packages (root w)) = None \<longrightarrow>
      start rollup exec parse other (Some ''build'') args w =
        (Exited 1, w\<lparr>console := console w @ [Err_error (Error (''Unknown package '' @ u))]\<rparr>)) \<and>
   (\<forall>n as.
      packageNames (root w) n = None \<longrightarrow>
      start rollup exec parse other (Some ''release'') (n # as) w =
        (Exited 1, w\<lparr>console := console w @ [Err (''No package '' @ n @ '' known'')]\<rparr>)) \<and>
   (\<forall>n as p m.
      packageNames (root w) n = Some p \<and> release_args False as 0 as (None, []) = Inl m \<longrightarrow>
      start rollup exec parse other (Some ''release'') (n # as) w =
        (Exited 1, w\<lparr>console := console w @ [Err m]\<rparr>))"
proof -
  have 1: "start rollup exec parse other c args w =
        (Exited 1, w\<lparr>console := console w @ [Log usage]\<rparr>)" if "start_select c args = None"
    using that by (simp add: start_def help'_def)
  have 2: "start_select c args = None"
    if "string_of_value c \<notin> fst ` set own_commands \<union> set inherited_names"
  proof -
    from that have "map_of own_commands (string_of_value c) = None"
      by (simp add: map_of_eq_None_iff)
    with that show ?thesis by (simp add: start_select_def cmdFn_def)
  qed
  have 3: "start rollup exec parse other (Some ''build'') args w =
        (case build_named rollup (''--force'' \<in> set args) ks w of
           (Completed, w1) \<Rightarrow>
             (Exited 1,
              w1\<lparr>console := console w1 @ [Err_error (Error (''Unknown package '' @ u))]\<rparr>)
         | (Threw e, w1) \<Rightarrow> (Exited 1, w1\<lparr>console := console w1 @ [Err_error e]\<rparr>)
         | (Exited n, w1) \<Rightarrow> (Exited n, w1))"
    if "names_of args = ks @ u # rest" "find (\<lambda>t. name t = u) (packages (root w)) = None"
    for ks u rest
  proof -
    obtain r w1 where e: "build_named rollup (''--force'' \<in> set args) ks w = (r, w1)"
      by (meson surj_pair)
    show ?thesis
      using build_unknown [OF that, of rollup] e
      by (cases r) (simp_all add: start_def select_build settle_def error_def)
  qed
  have 4: "start rollup exec parse other (Some ''build'') args w =
        (Exited 1, w\<lparr>console := console w @ [Err_error (Error (''Unknown package '' @ u))]\<rparr>)"
    if "names_of args = u # rest" "find (\<lambda>t. name t = u) (packages (root w)) = None"
    for u rest
    using 3 [of "[]" u rest] that by simp
  have 5: "start rollup exec parse other (Some ''release'') (n # as) w =
        (Exited 1, w\<lparr>console := console w @ [Err (''No package '' @ n @ '' known'')]\<rparr>)"
    if "packageNames (root w) n = None" for n as
    using that
    by (simp add: start_def select_release settle_def release_def release_with_def error_def)
  have 6: "start rollup exec parse other (Some ''release'') (n # as) w =
        (Exited 1, w\<lparr>console := console w @ [Err m]\<rparr>)"
    if "packageNames (root w) n = Some p" "release_args False as 0 as (None, []) = Inl m"
    for n as p m
    using that
    by (simp add: start_def select_release settle_def release_def release_with_def error_def)
  from 1 2 3 4 5 6 show ?thesis by blast
qed

theorem configuration_errors_witness:
  "start sample_bundler quiet_git sample_parser no_other (Some ''build'') [''nosuch'', ''lr'']
      (lr_world 10) =
     (Exited 1, (lr_world 10)\<lparr>console := [Err_error (Error ''Unknown package nosuch'')]\<rparr>) \<and>
   start sample_bundler quiet_git sample_parser no_other (Some ''deploy'') [] (lr_world 10) =
     (Exited 1, (lr_world 10)\<lparr>console := [Log usage]\<rparr>) \<and>
   start sample_bundler quiet_git sample_parser no_other (Some ''release'') [''nosuch'']
      (lr_world 10) =
     (Exited 1, (lr_world 10)\<lparr>console := [Err ''No package nosuch known'']\<rparr>)"
proof -
  let ?w = "lr_world 10"
  have n: "names_of [''nosuch'', ''lr''] = ''nosuch'' # [''lr'']"
    by (simp add: names_of_def element_def)
  have u: "string_of_value (Some ''deploy'') \<notin> fst ` set own_commands \<union> set inherited_names"
    by (simp add: string_of_value_def own_commands_def inherited_names_def)
  have p: "packageNames (root ?w) ''nosuch'' = None"
    by (simp add: packageNames_def packages_def Pkg_def)
  have c: "console ?w = []" by (simp add: lr_world_def)
  note t = configuration_errors [of _ _ sample_bundler quiet_git sample_parser no_other ?w]
  have "start sample_bundler quiet_git sample_parser no_other (Some ''build'') [''nosuch'', ''lr'']
      ?w = (Exited 1, ?w\<lparr>console := console ?w @ [Err_error (Error (''Unknown package '' @ ''nosuch''))]\<rparr>)"
    using t [of "Some ''build''" "[''nosuch'', ''lr'']"] n find_nosuch by blast
  moreover have "start sample_bundler quiet_git sample_parser no_other (Some ''deploy'') [] ?w =
      (Exited 1, ?w\<lparr>console := console ?w @ [Log usage]\<rparr>)"
    using t [of "Some ''deploy''" "[]"] u by (elim conjE) (simp del: string_of_value_def)
  moreover have "start sample_bundler quiet_git sample_parser no_other (Some ''release'')
      [''nosuch''] ?w =
      (Exited 1, ?w\<lparr>console := console ?w @ [Err (''No package '' @ ''nosuch'' @ '' known'')]\<rparr>)"
    using t [of "Some ''release''" "[''nosuch'']"] p by blast
  ultimately show ?thesis by (simp add: c)
qed

text \<open>
  \<^verbatim>\<open>build lr nosuch\<close> in the sample state: \<open>lr\<close> is stale and is built (the bundler is
  called with its configuration) before the unknown name ends the command.
\<close>

theorem build_before_unknown_counterexample:
  "fst (start sample_bundler quiet_git sample_parser no_other (Some ''build'') [''lr'', ''nosuch'']
      (lr_world 10)) = Exited 1 \<and>
   bundled (snd (start sample_bundler quiet_git sample_parser no_other (Some ''build'')
      [''lr'', ''nosuch''] (lr_world 10))) = [new_config ''/lezer'' lr_pkg build_all] \<and>
   last (console (snd (start sample_bundler quiet_git sample_parser no_other (Some ''build'')
      [''lr'', ''nosuch''] (lr_world 10)))) = Err_error (Error ''Unknown package nosuch'')"
proof -
  let ?args = "[''lr'', ''nosuch'']"
  let ?w = "lr_world 10"
  obtain r w1 where e: "rebuild sample_bundler lr_pkg build_all ?w = (r, w1)"
    by (meson surj_pair)
  with lr_rebuild_tie have r: "r = Completed"
    and b: "bundled w1 = [new_config ''/lezer'' lr_pkg build_all]" and rt: "root w1 = ''/lezer''"
    by simp_all
  have n: "names_of ?args = ?args"
    by (simp add: names_of_def element_def)
  have f: "''--force'' \<notin> set ?args" by simp
  have rw: "root ?w = ''/lezer''" by (simp add: lr_world_def)
  have "build sample_bundler ?args ?w = (Threw (Error ''Unknown package nosuch''), w1)"
    using e r by (simp add: build_def n rw find_lr find_nosuch build_all_def rt)
  then have "start sample_bundler quiet_git sample_parser no_other (Some ''build'') ?args ?w =
      (Exited 1, w1\<lparr>console := console w1 @ [Err_error (Error ''Unknown package nosuch'')]\<rparr>)"
    by (simp add: start_def select_build settle_def error_def)
  with b show ?thesis by simp
qed

section \<open>The order in which the watcher rebuilds\<close>




lemma monitor_Over [simp]: "monitor a b Over es"
  by (cases es) simp_all





















end
